theory Spec2Isabelle
  imports Complex_Main
begin

section \<open>Numbers and JavaScript idioms\<close>

text \<open>
  JavaScript numbers are modelled by exact rationals (\<^typ>\<open>rat\<close>): every comparison and
  every arithmetic expression of the source is kept as written, only the rounding of
  IEEE doubles is left out. A property that may be \<open>undefined\<close> is an \<open>option\<close>.
\<close>

text \<open>\<^verbatim>\<open>x || d\<close> on a number: \<open>undefined\<close> and \<open>0\<close> are falsy, so the default is taken.\<close>

definition js_or :: "rat option \<Rightarrow> rat \<Rightarrow> rat" where
  "js_or x d = (case x of None \<Rightarrow> d | Some v \<Rightarrow> if v = 0 then d else v)"

section \<open>Risk manager (src/trading/risk-manager.js)\<close>

text \<open>The order object handed to \<open>validateOrder\<close>; \<open>otype\<close> is the property \<open>type\<close>.\<close>

record order =
  symbol :: string
  qty :: rat
  side :: string
  otype :: string
  limitPrice :: "rat option"

text \<open>A broker-reported position; only the properties the risk manager reads.\<close>

record position =
  p_symbol :: string
  p_qty :: rat
  marketValue :: "rat option"

text \<open>
  The \<open>positions\<close> argument of \<open>validateOrder\<close> has three accepted shapes
  (\<open>flattenPositions\<close>): a \<open>Map\<close> from broker name to position array, a plain array,
  or a plain object whose values may or may not be arrays (\<open>None\<close>: not an array).
\<close>

datatype positions_arg =
    PMap "(string \<times> position list) list"
  | PArray "position list"
  | PObject "(string \<times> position list option) list"

record risk_config =
  maxPositionSize :: rat
  maxDailyLoss :: rat
  maxPortfolioRisk :: rat
  stopLossPercentage :: rat
  maxOpenPositions :: rat
  blacklistedSymbols :: "string list"

text \<open>The object passed to the constructor: any limit may be missing.\<close>

record risk_options =
  o_maxPositionSize :: "rat option"
  o_maxDailyLoss :: "rat option"
  o_maxPortfolioRisk :: "rat option"
  o_stopLossPercentage :: "rat option"
  o_maxOpenPositions :: "rat option"
  o_blacklistedSymbols :: "string list option"

text \<open>
  The messages given to \<open>this.log\<close>, one constructor per template of the source:
  \<^item> \<open>Blacklisted s\<close>: \<^verbatim>\<open>Order rejected: ${s} is blacklisted\<close>
  \<^item> \<open>DailyLossLimitReached p\<close>: \<^verbatim>\<open>Order rejected: Daily loss limit reached (${p})\<close>
  \<^item> \<open>PositionSizeTooLarge q\<close>: \<^verbatim>\<open>Order rejected: Position size too large (${q})\<close>
  \<^item> \<open>TooManyOpenPositions n\<close>: \<^verbatim>\<open>Order rejected: Too many open positions (${n})\<close>
  \<^item> \<open>PortfolioRiskTooHigh r\<close>: \<^verbatim>\<open>Order rejected: Portfolio risk too high (${r.toFixed(2)}%)\<close>
  \<^item> \<open>SymbolConcentrationTooHigh s\<close>: \<^verbatim>\<open>Order rejected: Symbol concentration too high for ${s}\<close>
  \<^item> \<open>DailyCountersReset\<close>: \<^verbatim>\<open>Daily counters reset\<close>
\<close>

datatype risk_log =
    Blacklisted string
  | DailyLossLimitReached rat
  | PositionSizeTooLarge rat
  | TooManyOpenPositions nat
  | PortfolioRiskTooHigh rat
  | SymbolConcentrationTooHigh string
  | DailyCountersReset

text \<open>
  The risk manager object. \<open>lastResetDate\<close> is the string of \<open>Date.toDateString()\<close>;
  \<open>logged\<close> collects the messages written by \<open>this.log\<close>, oldest first.
\<close>

record risk_manager =
  config :: risk_config
  dailyPnl :: rat
  dailyTrades :: nat
  lastResetDate :: string
  logged :: "risk_log list"

text \<open>
  The constructor: each default \<^verbatim>\<open>config.x || d\<close> is followed by \<^verbatim>\<open>...config\<close>, which
  writes every property the caller gave over it, so a given value always wins.
  \<open>today\<close> is \<^verbatim>\<open>new Date().toDateString()\<close>.
\<close>

definition newRiskManager :: "risk_options \<Rightarrow> string \<Rightarrow> risk_manager" where
  "newRiskManager c today =
     \<lparr> config = \<lparr> maxPositionSize = (case o_maxPositionSize c of Some v \<Rightarrow> v | None \<Rightarrow> 1000),
                  maxDailyLoss = (case o_maxDailyLoss c of Some v \<Rightarrow> v | None \<Rightarrow> 500),
                  maxPortfolioRisk = (case o_maxPortfolioRisk c of Some v \<Rightarrow> v | None \<Rightarrow> 2 / 100),
                  stopLossPercentage = (case o_stopLossPercentage c of Some v \<Rightarrow> v | None \<Rightarrow> 2 / 100),
                  maxOpenPositions = (case o_maxOpenPositions c of Some v \<Rightarrow> v | None \<Rightarrow> 10),
                  blacklistedSymbols = (case o_blacklistedSymbols c of Some v \<Rightarrow> v | None \<Rightarrow> []) \<rparr>,
       dailyPnl = 0, dailyTrades = 0, lastResetDate = today, logged = [] \<rparr>"

definition rlog :: "risk_manager \<Rightarrow> risk_log \<Rightarrow> risk_manager" where
  "rlog rm m = rm\<lparr>logged := logged rm @ [m]\<rparr>"

definition resetDailyCountersIfNeeded :: "risk_manager \<Rightarrow> string \<Rightarrow> risk_manager" where
  "resetDailyCountersIfNeeded rm today =
     (if lastResetDate rm \<noteq> today
      then rlog (rm\<lparr>dailyPnl := 0, dailyTrades := 0, lastResetDate := today\<rparr>) DailyCountersReset
      else rm)"

fun flattenPositions :: "positions_arg \<Rightarrow> position list" where
  "flattenPositions (PMap m) = concat (map snd m)"
| "flattenPositions (PArray ps) = ps"
| "flattenPositions (PObject kvs) =
     concat (map (\<lambda>(k, v). case v of Some ps \<Rightarrow> ps | None \<Rightarrow> []) kvs)"

text \<open>\<^verbatim>\<open>positions.reduce((sum, pos) => sum + Math.abs(pos.marketValue || 0), 0)\<close>\<close>

definition totalAbsValue :: "position list \<Rightarrow> rat" where
  "totalAbsValue ps = foldl (\<lambda>sum pos. sum + \<bar>js_or (marketValue pos) 0\<bar>) 0 ps"

text \<open>\<^verbatim>\<open>order.qty * (order.limitPrice || 100)\<close>\<close>

definition orderValue :: "order \<Rightarrow> rat" where
  "orderValue ord = qty ord * js_or (limitPrice ord) 100"

definition validatePortfolioRisk ::
  "risk_manager \<Rightarrow> order \<Rightarrow> position list \<Rightarrow> bool \<times> risk_manager" where
  "validatePortfolioRisk rm ord positions =
     (let totalPortfolioValue = totalAbsValue positions in
      if totalPortfolioValue = 0 then (True, rm)
      else
        let riskPercentage = orderValue ord / totalPortfolioValue in
        if riskPercentage > maxPortfolioRisk (config rm)
        then (False, rlog rm (PortfolioRiskTooHigh riskPercentage))
        else (True, rm))"

definition validatePositionConcentration ::
  "risk_manager \<Rightarrow> order \<Rightarrow> position list \<Rightarrow> bool \<times> risk_manager" where
  "validatePositionConcentration rm ord positions =
     (let symbolPositions = filter (\<lambda>pos. p_symbol pos = symbol ord) positions;
          totalSymbolValue = totalAbsValue symbolPositions;
          maxSymbolValue = maxPositionSize (config rm)
      in if totalSymbolValue + orderValue ord > maxSymbolValue
         then (False, rlog rm (SymbolConcentrationTooHigh (symbol ord)))
         else (True, rm))"

text \<open>
  \<open>validateOrder\<close>: the decision and the risk manager as the call leaves it.
  \<open>today\<close> is the clock reading \<^verbatim>\<open>new Date().toDateString()\<close> of this call.
\<close>

definition validateOrder ::
  "risk_manager \<Rightarrow> string \<Rightarrow> order \<Rightarrow> positions_arg \<Rightarrow> bool \<times> risk_manager" where
  "validateOrder rm0 today ord positions =
     (let rm = resetDailyCountersIfNeeded rm0 today in
      if symbol ord \<in> set (blacklistedSymbols (config rm))
      then (False, rlog rm (Blacklisted (symbol ord)))
      else if dailyPnl rm \<le> - maxDailyLoss (config rm)
      then (False, rlog rm (DailyLossLimitReached (dailyPnl rm)))
      else if orderValue ord > maxPositionSize (config rm)
      then (False, rlog rm (PositionSizeTooLarge (qty ord)))
      else
        let allPositions = flattenPositions positions in
        if of_nat (length allPositions) \<ge> maxOpenPositions (config rm) \<and> side ord = ''buy''
        then (False, rlog rm (TooManyOpenPositions (length allPositions)))
        else
          case validatePortfolioRisk rm ord allPositions of
            (False, rm') \<Rightarrow> (False, rm')
          | (True, rm') \<Rightarrow> validatePositionConcentration rm' ord allPositions)"

definition updateDailyPnl :: "risk_manager \<Rightarrow> string \<Rightarrow> rat \<Rightarrow> risk_manager" where
  "updateDailyPnl rm0 today pnl =
     (let rm = resetDailyCountersIfNeeded rm0 today
      in rm\<lparr>dailyPnl := dailyPnl rm + pnl, dailyTrades := dailyTrades rm + 1\<rparr>)"

section \<open>Numbers that may be infinite\<close>

text \<open>
  \<^verbatim>\<open>a / b\<close> in JavaScript never fails: a zero divisor gives \<open>Infinity\<close>, \<open>-Infinity\<close>
  or \<open>NaN\<close>. HOL's \<open>a / 0\<close> is \<open>0\<close>, so the quotient is modelled apart. Every comparison
  with \<open>NaN\<close> is false. (The sign of a zero divisor is not modelled: the divisor is
  taken as \<open>+0\<close>.)
\<close>

datatype jsnum = Fin rat | PosInf | NegInf | NaN

definition js_div :: "rat \<Rightarrow> rat \<Rightarrow> jsnum" where
  "js_div a b = (if b = 0 then (if a > 0 then PosInf else if a < 0 then NegInf else NaN)
                 else Fin (a / b))"

fun js_le :: "jsnum \<Rightarrow> rat \<Rightarrow> bool" where
  "js_le (Fin a) c = (a \<le> c)"
| "js_le NegInf c = True"
| "js_le PosInf c = False"
| "js_le NaN c = False"

fun js_ge :: "jsnum \<Rightarrow> rat \<Rightarrow> bool" where
  "js_ge (Fin a) c = (a \<ge> c)"
| "js_ge PosInf c = True"
| "js_ge NegInf c = False"
| "js_ge NaN c = False"

text \<open>\<^verbatim>\<open>x * c\<close> for a positive finite constant \<open>c\<close> (here always \<open>100\<close>).\<close>

fun js_scale :: "jsnum \<Rightarrow> rat \<Rightarrow> jsnum" where
  "js_scale (Fin a) c = Fin (a * c)"
| "js_scale x c = x"

section \<open>Strategies (src/trading/strategy-base.js, strategies/news-based-strategy.js)\<close>

text \<open>One entry of the data aggregator's summary, and one market data point.\<close>

record analysis =
  sentimentScore :: rat
  buzzScore :: rat
  newsMentions :: nat

record market_point =
  price :: "rat option"
  volume :: "rat option"

type_synonym summary = "string \<rightharpoonup> analysis"

type_synonym market_data = "string \<rightharpoonup> market_point"

text \<open>
  The \<open>reason\<close> text of a signal, one constructor per template of the source:
  \<^item> \<open>PositiveSentimentBuzz s b\<close>:
    \<^verbatim>\<open>Positive sentiment (${s.toFixed(2)}) with high buzz (${b})\<close>
  \<^item> \<open>SellReason reason pnl\<close>: \<^verbatim>\<open>${reason} - P&L: ${pnl.toFixed(2)}%\<close>, where \<open>reason\<close> is
    the reason code and \<open>pnl\<close> is \<^verbatim>\<open>priceChange * 100\<close>.
\<close>

datatype signal_reason =
    PositiveSentimentBuzz rat rat
  | SellReason string jsnum

text \<open>The signal object of \<open>createSignal\<close>; \<open>timestamp\<close> in milliseconds.\<close>

record signal =
  sg_symbol :: string
  action :: string
  quantity :: rat
  orderType :: string
  sg_limitPrice :: "rat option"
  sg_stopPrice :: "rat option"
  sg_timeInForce :: string
  sg_strategyName :: string
  timestamp :: int
  reason :: signal_reason
  preferredBroker :: "string option"

text \<open>An entry of \<open>activePositions\<close>.\<close>

record strat_position =
  entryTime :: int
  entryPrice :: rat
  sp_reason :: string

record strategy_config =
  sentimentThreshold :: rat
  buzzThreshold :: rat
  positionSize :: rat
  holdingPeriod :: rat

text \<open>
  What the strategy writes with \<open>this.log\<close>:
  \<^item> \<open>NoAggregator\<close>: \<^verbatim>\<open>No data aggregator set, skipping evaluation\<close>
  \<^item> \<open>NoData\<close>: \<^verbatim>\<open>No data available for evaluation\<close>
  \<^item> \<open>BuyLog symb s b\<close>: \<^verbatim>\<open>Buy signal for ${symbol}: sentiment=${s}, buzz=${b}\<close>
  \<^item> \<open>SellLog symb reason pnl\<close>: \<^verbatim>\<open>Sell signal for ${symbol}: reason=${reason}, P&L=${pnl.toFixed(2)}%\<close>
\<close>

datatype strat_log =
    NoAggregator
  | NoData
  | BuyLog string rat rat
  | SellLog string string jsnum

text \<open>
  The strategy object. \<open>activePositions\<close> is the \<open>Map\<close> from symbol to entry.
  \<open>dataAggregator\<close> is \<open>None\<close> while no aggregator is set; otherwise it holds what
  \<open>getLatestData()\<close> returns now: \<open>None\<close> when there is no data (or no summary), else
  the summary.
\<close>

record strategy =
  name :: string
  s_config :: strategy_config
  enabled :: bool
  watchlist :: "string list"
  activePositions :: "string \<rightharpoonup> strat_position"
  dataAggregator :: "summary option option"
  lastSignals :: "signal list"
  s_logged :: "strat_log list"

definition slog :: "strategy \<Rightarrow> strat_log \<Rightarrow> strategy" where
  "slog st m = st\<lparr>s_logged := s_logged st @ [m]\<rparr>"

text \<open>
  \<open>createSignal(symbol, action, quantity, {orderType: 'market', reason})\<close>: builds the
  signal, appends it to \<open>lastSignals\<close> and keeps the last 100 of them.
\<close>

definition createSignal ::
  "strategy \<Rightarrow> string \<Rightarrow> string \<Rightarrow> rat \<Rightarrow> signal_reason \<Rightarrow> int \<Rightarrow> signal \<times> strategy" where
  "createSignal st symb act quant rsn now =
     (let sig = \<lparr> sg_symbol = symb, action = act, quantity = quant, orderType = ''market'',
                  sg_limitPrice = None, sg_stopPrice = None, sg_timeInForce = ''gtc'',
                  sg_strategyName = name st, timestamp = now, reason = rsn,
                  preferredBroker = None \<rparr>;
          pushed = lastSignals st @ [sig]
      in (sig, st\<lparr>lastSignals :=
                    (if length pushed > 100 then drop (length pushed - 100) pushed else pushed)\<rparr>))"

text \<open>\<open>now\<close> is the clock reading (\<^verbatim>\<open>new Date()\<close>, \<^verbatim>\<open>Date.now()\<close>) in milliseconds.\<close>

definition evaluateBuySignal ::
  "strategy \<Rightarrow> string \<Rightarrow> analysis \<Rightarrow> rat \<Rightarrow> int \<Rightarrow> signal option \<times> strategy" where
  "evaluateBuySignal st symb an currentPrice now =
     (if activePositions st symb \<noteq> None then (None, st)
      else
        let strongPositiveSentiment = (sentimentScore an \<ge> sentimentThreshold (s_config st));
            highBuzz = (buzzScore an \<ge> buzzThreshold (s_config st));
            hasNewsContent = (newsMentions an > 0)
        in if strongPositiveSentiment \<and> highBuzz \<and> hasNewsContent
           then
             let st1 = slog st (BuyLog symb (sentimentScore an) (buzzScore an));
                 st2 = st1\<lparr>activePositions := (activePositions st1)
                          (symb \<mapsto> \<lparr> entryTime = now, entryPrice = currentPrice,
                                    sp_reason = ''positive_sentiment_buzz'' \<rparr>)\<rparr>
             in case createSignal st2 symb ''buy'' (positionSize (s_config st2))
                       (PositiveSentimentBuzz (sentimentScore an) (buzzScore an)) now of
                  (sig, st3) \<Rightarrow> (Some sig, st3)
           else (None, st))"

definition evaluateSellSignal ::
  "strategy \<Rightarrow> string \<Rightarrow> analysis \<Rightarrow> rat \<Rightarrow> int \<Rightarrow> signal option \<times> strategy" where
  "evaluateSellSignal st symb an currentPrice now =
     (case activePositions st symb of
        None \<Rightarrow> (None, st)
      | Some position \<Rightarrow>
          let holdingTime = now - entryTime position;
              priceChange = js_div (currentPrice - entryPrice position) (entryPrice position);
              holdingPeriodExceeded = (of_int holdingTime \<ge> holdingPeriod (s_config st));
              strongNegativeSentiment = (sentimentScore an \<le> - sentimentThreshold (s_config st));
              stopLoss = js_le priceChange (- (5 / 100));
              takeProfit = js_ge priceChange (10 / 100)
          in if holdingPeriodExceeded \<or> strongNegativeSentiment \<or> stopLoss \<or> takeProfit
             then
               let reason = (if holdingPeriodExceeded then ''holding_period_exceeded''
                             else if strongNegativeSentiment then ''negative_sentiment''
                             else if stopLoss then ''stop_loss''
                             else if takeProfit then ''take_profit''
                             else ''unknown'');
                   st1 = slog st (SellLog symb reason (js_scale priceChange 100));
                   st2 = st1\<lparr>activePositions := (activePositions st1)(symb := None)\<rparr>
               in case createSignal st2 symb ''sell'' (positionSize (s_config st2))
                         (SellReason reason (js_scale priceChange 100)) now of
                    (sig, st3) \<Rightarrow> (Some sig, st3)
             else (None, st))"

text \<open>
  The loop of \<open>evaluate\<close> over the watchlist, with the signals collected so far. A symbol
  without analysis, or without a price (\<open>undefined\<close> or \<open>0\<close>), is skipped. The buy check
  runs first and the sell check runs after it on the state the buy check left.
\<close>

fun evaluateSymbols ::
  "summary \<Rightarrow> market_data \<Rightarrow> int \<Rightarrow> string list \<Rightarrow> signal list \<Rightarrow> strategy
     \<Rightarrow> signal list \<times> strategy" where
  "evaluateSymbols summ marketData now [] signals st = (signals, st)"
| "evaluateSymbols summ marketData now (symb # rest) signals st =
     (case summ symb of
        None \<Rightarrow> evaluateSymbols summ marketData now rest signals st
      | Some symbolAnalysis \<Rightarrow>
          (case (case marketData symb of None \<Rightarrow> None | Some mp \<Rightarrow> price mp) of
             None \<Rightarrow> evaluateSymbols summ marketData now rest signals st
           | Some currentPrice \<Rightarrow>
               if currentPrice = 0 then evaluateSymbols summ marketData now rest signals st
               else
                 (case evaluateBuySignal st symb symbolAnalysis currentPrice now of
                    (buySignal, st1) \<Rightarrow>
                      let signals1 = (case buySignal of Some s \<Rightarrow> signals @ [s] | None \<Rightarrow> signals)
                      in (case evaluateSellSignal st1 symb symbolAnalysis currentPrice now of
                            (sellSignal, st2) \<Rightarrow>
                              let signals2 = (case sellSignal of Some s \<Rightarrow> signals1 @ [s]
                                                                | None \<Rightarrow> signals1)
                              in evaluateSymbols summ marketData now rest signals2 st2))))"

text \<open>
  \<open>evaluate(marketData)\<close>: the signals and the strategy as the call leaves it. The call
  is synchronous, so all its clock readings are the one millisecond \<open>now\<close>.
\<close>

definition evaluate :: "strategy \<Rightarrow> market_data \<Rightarrow> int \<Rightarrow> signal list \<times> strategy" where
  "evaluate st marketData now =
     (case dataAggregator st of
        None \<Rightarrow> ([], slog st NoAggregator)
      | Some latestData \<Rightarrow>
          (case latestData of
             None \<Rightarrow> ([], slog st NoData)
           | Some summ \<Rightarrow> evaluateSymbols summ marketData now (watchlist st) [] st))"

section \<open>Brokers and the clock\<close>

text \<open>The order object that \<open>executeSignal\<close> hands to \<open>placeOrder\<close>.\<close>

record order_spec = order +
  stopPrice :: "rat option"
  timeInForce :: string

text \<open>
  An order as a broker reports it: the result of \<open>placeOrder\<close> and the elements of
  \<open>getOrderHistory()\<close>. A result of \<open>placeOrder\<close> has no \<open>filledQty\<close> and no
  \<open>avgFillPrice\<close> (\<open>None\<close>).
\<close>

record broker_order =
  orderId :: string
  b_symbol :: string
  b_qty :: rat
  b_side :: string
  b_type :: string
  status :: string
  filledQty :: "rat option"
  avgFillPrice :: "rat option"
  b_timestamp :: int

text \<open>
  A broker is outside the program: its answers may depend on everything that happened
  before. The outside world is a value of an arbitrary type \<open>'w\<close>; a broker call takes
  the world, and returns its answer with the world after the call. \<open>Inl message\<close> is a
  thrown \<open>Error\<close>.
\<close>

record 'w broker =
  authenticate :: "'w \<Rightarrow> (string + unit) \<times> 'w"
  placeOrder :: "order_spec \<Rightarrow> 'w \<Rightarrow> (string + broker_order) \<times> 'w"
  getOrderHistory :: "'w \<Rightarrow> (string + broker_order list) \<times> 'w"

text \<open>
  What the engine is given and never changes: the \<open>brokers\<close> object of the constructor
  (its entries in insertion order), and the clock, read from the world:
  \<open>dateString\<close> is \<^verbatim>\<open>new Date().toDateString()\<close> and \<open>nowMs\<close> is \<^verbatim>\<open>Date.now()\<close>.
\<close>

record 'w env =
  brokers :: "(string \<times> 'w broker) list"
  dateString :: "'w \<Rightarrow> string"
  nowMs :: "'w \<Rightarrow> int"

section \<open>Trading engine (src/trading/trading-engine.js)\<close>

text \<open>An entry of the registry \<open>this.orders\<close>: \<^verbatim>\<open>{...result, strategyName, signal}\<close>.\<close>

record order_info = broker_order +
  strategyName :: string
  signal :: signal

text \<open>
  The events given to \<open>this.emit\<close>:
  \<^item> \<open>Started\<close>: \<^verbatim>\<open>emit('started')\<close>
  \<^item> \<open>OrderPlaced orderId order strategyName signal\<close>: \<^verbatim>\<open>emit('order_placed', {...})\<close>
  \<^item> \<open>OrderFailed signal message strategyName\<close>: \<^verbatim>\<open>emit('order_failed', {...})\<close>
  \<^item> \<open>OrderUpdated orderId order\<close>: \<^verbatim>\<open>emit('order_updated', {orderId, order})\<close>
  Listeners are outside the engine and are not modelled.
\<close>

datatype event =
    Started
  | OrderPlaced string broker_order string signal
  | OrderFailed signal string string
  | OrderUpdated string broker_order

text \<open>
  The engine object. The three \<open>Map\<close>s are lists of entries in insertion order;
  \<open>emitted\<close> collects the events, oldest first.
\<close>

record engine =
  strategies :: "(string \<times> strategy) list"
  positions :: "(string \<times> position list) list"
  orders :: "(string \<times> order_info) list"
  running :: bool
  riskManager :: "risk_manager option"
  emitted :: "event list"

text \<open>
  \<open>Map.prototype.set\<close>: the value of an existing key is replaced where it stands, a new
  key is appended.
\<close>

fun mapSet :: "'k \<Rightarrow> 'v \<Rightarrow> ('k \<times> 'v) list \<Rightarrow> ('k \<times> 'v) list" where
  "mapSet k v [] = [(k, v)]"
| "mapSet k v ((k', v') # rest) =
     (if k' = k then (k, v) # rest else (k', v') # mapSet k v rest)"

definition emit :: "engine \<Rightarrow> event \<Rightarrow> engine" where
  "emit eng e = eng\<lparr>emitted := emitted eng @ [e]\<rparr>"

text \<open>
  \<open>selectBroker\<close>: the preferred broker when the signal names one that exists, else
  \<^verbatim>\<open>Object.values(this.brokers)[0]\<close>, which is \<open>undefined\<close> (\<open>None\<close>) without brokers.
\<close>

definition selectBroker :: "'w env \<Rightarrow> signal \<Rightarrow> 'w broker option" where
  "selectBroker env sig =
     (case (case preferredBroker sig of
              None \<Rightarrow> None
            | Some p \<Rightarrow> if p = [] then None else map_of (brokers env) p) of
        Some b \<Rightarrow> Some b
      | None \<Rightarrow> (case brokers env of [] \<Rightarrow> None | (n, b) # rest \<Rightarrow> Some b))"

text \<open>
  \<open>start()\<close>. The loop over the brokers stops at the first \<open>authenticate\<close> that throws
  and rethrows. The model of \<open>start\<close> ends where \<open>executionLoop()\<close> is launched (it is
  not awaited); \<open>Inl message\<close> is the \<open>Error\<close> thrown.
\<close>

fun authenticateAll :: "(string \<times> 'w broker) list \<Rightarrow> 'w \<Rightarrow> (string + unit) \<times> 'w" where
  "authenticateAll [] w = (Inr (), w)"
| "authenticateAll ((n, b) # rest) w =
     (case authenticate b w of
        (Inl err, w') \<Rightarrow> (Inl err, w')
      | (Inr u, w') \<Rightarrow> authenticateAll rest w')"

definition start :: "'w env \<Rightarrow> engine \<Rightarrow> 'w \<Rightarrow> (string + unit) \<times> engine \<times> 'w" where
  "start env eng w =
     (if running eng then (Inl ''Trading engine is already running'', eng, w)
      else
        let eng1 = eng\<lparr>running := True\<rparr> in
        case authenticateAll (brokers env) w of
          (Inl err, w') \<Rightarrow> (Inl err, eng1, w')
        | (Inr u, w') \<Rightarrow> (Inr (), emit eng1 Started, w'))"

text \<open>
  \<open>validateSignal\<close>: \<open>None\<close> is the \<open>null\<close> of a dropped signal. The order given to the
  risk manager has no \<open>limitPrice\<close>.
\<close>

definition validateSignal ::
  "'w env \<Rightarrow> engine \<Rightarrow> signal \<Rightarrow> string \<Rightarrow> 'w \<Rightarrow> signal option \<times> engine" where
  "validateSignal env eng sig stratName w =
     (if sg_symbol sig = [] \<or> action sig = [] \<or> quantity sig = 0 then (None, eng)
      else
        case riskManager eng of
          None \<Rightarrow> (Some sig, eng)
        | Some rm \<Rightarrow>
            (case validateOrder rm (dateString env w)
                    \<lparr> symbol = sg_symbol sig, qty = quantity sig, side = action sig,
                      otype = (if orderType sig = [] then ''market'' else orderType sig),
                      limitPrice = None \<rparr>
                    (PMap (positions eng)) of
               (approved, rm') \<Rightarrow>
                 (if approved then Some sig else None, eng\<lparr>riskManager := Some rm'\<rparr>)))"

text \<open>
  \<open>signalOrder\<close> is the object literal \<open>order\<close> that \<open>executeSignal\<close> builds from the
  signal, and \<open>registryEntry\<close> the literal \<^verbatim>\<open>{...result, strategyName, signal}\<close> that it
  stores. Calling \<open>placeOrder\<close> on the \<open>undefined\<close> broker throws a
  \<open>TypeError\<close> inside the \<open>try\<close>, which is caught like a throw of \<open>placeOrder\<close>.
\<close>

definition registryEntry :: "broker_order \<Rightarrow> string \<Rightarrow> signal \<Rightarrow> order_info" where
  "registryEntry result stratName sig =
     \<lparr> orderId = orderId result, b_symbol = b_symbol result, b_qty = b_qty result,
       b_side = b_side result, b_type = b_type result, status = status result,
       filledQty = filledQty result, avgFillPrice = avgFillPrice result,
       b_timestamp = b_timestamp result, strategyName = stratName, signal = sig \<rparr>"

definition signalOrder :: "signal \<Rightarrow> order_spec" where
  "signalOrder sig =
     \<lparr> symbol = sg_symbol sig, qty = quantity sig, side = action sig,
       otype = (if orderType sig = [] then ''market'' else orderType sig),
       limitPrice = sg_limitPrice sig, stopPrice = sg_stopPrice sig,
       timeInForce = (if sg_timeInForce sig = [] then ''gtc'' else sg_timeInForce sig) \<rparr>"

definition executeSignal ::
  "'w env \<Rightarrow> engine \<Rightarrow> signal \<Rightarrow> string \<Rightarrow> 'w \<Rightarrow> engine \<times> 'w" where
  "executeSignal env eng sig stratName w =
     (let ord = signalOrder sig
      in case selectBroker env sig of
           None \<Rightarrow>
             (emit eng (OrderFailed sig
                ''Cannot read properties of undefined (reading 'placeOrder')'' stratName), w)
         | Some broker \<Rightarrow>
             (case placeOrder broker ord w of
                (Inl err, w') \<Rightarrow> (emit eng (OrderFailed sig err stratName), w')
              | (Inr result, w') \<Rightarrow>
                  (emit (eng\<lparr>orders := mapSet (orderId result)
                                 (registryEntry result stratName sig) (orders eng)\<rparr>)
                        (OrderPlaced (orderId result) result stratName sig), w')))"

fun processSignals ::
  "'w env \<Rightarrow> engine \<Rightarrow> signal list \<Rightarrow> string \<Rightarrow> 'w \<Rightarrow> engine \<times> 'w" where
  "processSignals env eng [] stratName w = (eng, w)"
| "processSignals env eng (sig # rest) stratName w =
     (case validateSignal env eng sig stratName w of
        (None, eng1) \<Rightarrow> processSignals env eng1 rest stratName w
      | (Some validatedSignal, eng1) \<Rightarrow>
          (case executeSignal env eng1 validatedSignal stratName w of
             (eng2, w2) \<Rightarrow> processSignals env eng2 rest stratName w2))"

text \<open>
  The loop of \<open>executeStrategies\<close> over the entries of \<open>this.strategies\<close>, for the market
  data that \<open>gatherMarketData\<close> returned. A strategy object is changed by its own
  \<open>evaluate\<close> only, so the entry holds its state when the loop reaches it; the state
  \<open>evaluate\<close> leaves is stored back under its name.
\<close>

fun executeStrategiesFrom ::
  "'w env \<Rightarrow> market_data \<Rightarrow> (string \<times> strategy) list \<Rightarrow> engine \<Rightarrow> 'w \<Rightarrow> engine \<times> 'w" where
  "executeStrategiesFrom env marketData [] eng w = (eng, w)"
| "executeStrategiesFrom env marketData ((nm, strat) # rest) eng w =
     (if enabled strat
      then
        (case evaluate strat marketData (nowMs env w) of
           (signals, strat') \<Rightarrow>
             (case processSignals env (eng\<lparr>strategies := mapSet nm strat' (strategies eng)\<rparr>)
                     signals nm w of
                (eng', w') \<Rightarrow> executeStrategiesFrom env marketData rest eng' w'))
      else executeStrategiesFrom env marketData rest eng w)"

definition executeStrategies ::
  "'w env \<Rightarrow> market_data \<Rightarrow> engine \<Rightarrow> 'w \<Rightarrow> engine \<times> 'w" where
  "executeStrategies env marketData eng w =
     executeStrategiesFrom env marketData (strategies eng) eng w"

text \<open>\<^verbatim>\<open>{ ...orderInfo, ...currentOrder }\<close>: every property the broker reports wins.\<close>

definition mergeOrder :: "order_info \<Rightarrow> broker_order \<Rightarrow> order_info" where
  "mergeOrder orderInfo currentOrder =
     orderInfo\<lparr> orderId := orderId currentOrder, b_symbol := b_symbol currentOrder,
                b_qty := b_qty currentOrder, b_side := b_side currentOrder,
                b_type := b_type currentOrder, status := status currentOrder,
                filledQty := (case filledQty currentOrder of
                                Some v \<Rightarrow> Some v | None \<Rightarrow> filledQty orderInfo),
                avgFillPrice := (case avgFillPrice currentOrder of
                                   Some v \<Rightarrow> Some v | None \<Rightarrow> avgFillPrice orderInfo),
                b_timestamp := b_timestamp currentOrder \<rparr>"

text \<open>
  The loop of \<open>processOrders\<close> over the entries of \<open>this.orders\<close>. An iteration writes
  the entry of its own key only, so each entry is read as it was when the loop began.
  A missing broker or a throw of \<open>getOrderHistory\<close> is caught and the loop goes on.
\<close>

fun processOrdersFrom ::
  "'w env \<Rightarrow> (string \<times> order_info) list \<Rightarrow> engine \<Rightarrow> 'w \<Rightarrow> engine \<times> 'w" where
  "processOrdersFrom env [] eng w = (eng, w)"
| "processOrdersFrom env ((oid, orderInfo) # rest) eng w =
     (case selectBroker env (signal orderInfo) of
        None \<Rightarrow> processOrdersFrom env rest eng w
      | Some broker \<Rightarrow>
          (case getOrderHistory broker w of
             (Inl err, w') \<Rightarrow> processOrdersFrom env rest eng w'
           | (Inr orderHistory, w') \<Rightarrow>
               (case find (\<lambda>h. orderId h = oid) orderHistory of
                  None \<Rightarrow> processOrdersFrom env rest eng w'
                | Some currentOrder \<Rightarrow>
                    if status currentOrder \<noteq> status orderInfo
                    then processOrdersFrom env rest
                           (emit (eng\<lparr>orders := mapSet oid (mergeOrder orderInfo currentOrder)
                                                  (orders eng)\<rparr>)
                                 (OrderUpdated oid currentOrder)) w'
                    else processOrdersFrom env rest eng w')))"

definition processOrders :: "'w env \<Rightarrow> engine \<Rightarrow> 'w \<Rightarrow> engine \<times> 'w" where
  "processOrders env eng w = processOrdersFrom env (orders eng) eng w"

text \<open>
  What one iteration of the loop of \<open>processOrders\<close> makes of an entry when the broker's
  history is read in world \<open>w\<close>. It is used to describe the registry after the loop.
\<close>

definition reconcileEntry :: "'w env \<Rightarrow> 'w \<Rightarrow> string \<times> order_info \<Rightarrow> string \<times> order_info" where
  "reconcileEntry env w e =
     (case selectBroker env (signal (snd e)) of
        None \<Rightarrow> e
      | Some broker \<Rightarrow>
          (case fst (getOrderHistory broker w) of
             Inl err \<Rightarrow> e
           | Inr orderHistory \<Rightarrow>
               (case find (\<lambda>h. orderId h = fst e) orderHistory of
                  None \<Rightarrow> e
                | Some currentOrder \<Rightarrow>
                    if status currentOrder \<noteq> status (snd e)
                    then (fst e, mergeOrder (snd e) currentOrder) else e)))"

section \<open>Scenario data\<close>

definition limitsAB :: risk_options where
  "limitsAB = \<lparr> o_maxPositionSize = Some 1000, o_maxDailyLoss = Some 500,
                o_maxPortfolioRisk = None, o_stopLossPercentage = None,
                o_maxOpenPositions = None, o_blacklistedSymbols = None \<rparr>"

definition aaplBuy :: "rat \<Rightarrow> order" where
  "aaplBuy q = \<lparr> symbol = ''AAPL'', qty = q, side = ''buy'', otype = ''limit'',
                 limitPrice = Some 100 \<rparr>"

definition aaplSell :: "rat \<Rightarrow> order" where
  "aaplSell q = \<lparr> symbol = ''AAPL'', qty = q, side = ''sell'', otype = ''market'',
                  limitPrice = None \<rparr>"

definition jan1 :: string where "jan1 = ''Mon Jan 01 2024''"
definition jan2 :: string where "jan2 = ''Tue Jan 02 2024''"

definition staleManager :: risk_manager where
  "staleManager = (newRiskManager limitsAB jan1)\<lparr>dailyPnl := - 500, dailyTrades := 3\<rparr>"

definition newsConfig :: "rat \<Rightarrow> rat \<Rightarrow> strategy_config" where
  "newsConfig threshold period = \<lparr> sentimentThreshold = threshold, buzzThreshold = 50,
       positionSize = 100, holdingPeriod = period \<rparr>"

definition newsStrategy :: "strategy_config \<Rightarrow> summary \<Rightarrow> strategy" where
  "newsStrategy cfg summ = \<lparr> name = ''NewsBasedStrategy'', s_config = cfg, enabled = True,
       watchlist = [''AAPL''], activePositions = Map.empty, dataAggregator = Some (Some summ),
       lastSignals = [], s_logged = [] \<rparr>"

definition aaplSummary :: "rat \<Rightarrow> summary" where
  "aaplSummary s = [''AAPL'' \<mapsto> \<lparr> sentimentScore = s, buzzScore = 60, newsMentions = 2 \<rparr>]"

definition aaplMarket :: "rat \<Rightarrow> market_data" where
  "aaplMarket p = [''AAPL'' \<mapsto> \<lparr> price = Some p, volume = None \<rparr>]"

definition heldAt150 :: strategy where
  "heldAt150 = (newsStrategy (newsConfig (6 / 10) 3600000) (aaplSummary (7 / 10)))
     \<lparr> activePositions := [''AAPL'' \<mapsto> \<lparr> entryTime = 0, entryPrice = 150,
                                          sp_reason = ''positive_sentiment_buzz'' \<rparr>] \<rparr>"

definition mkSignal :: "string \<Rightarrow> string \<Rightarrow> rat \<Rightarrow> signal" where
  "mkSignal symb act q =
     \<lparr> sg_symbol = symb, action = act, quantity = q, orderType = ''market'',
       sg_limitPrice = None, sg_stopPrice = None, sg_timeInForce = ''gtc'',
       sg_strategyName = ''NewsBasedStrategy'', timestamp = 0,
       reason = PositiveSentimentBuzz (7 / 10) 60, preferredBroker = None \<rparr>"

definition filledAapl :: broker_order where
  "filledAapl = \<lparr> orderId = ''ord-AAPL'', b_symbol = ''AAPL'', b_qty = 5, b_side = ''buy'',
       b_type = ''market'', status = ''filled'', filledQty = Some 5, avgFillPrice = Some 150,
       b_timestamp = 0 \<rparr>"

definition paperBroker :: "nat broker" where
  "paperBroker =
     \<lparr> authenticate = (\<lambda>w. (Inr (), Suc w)),
       placeOrder = (\<lambda>ord w.
         if symbol ord = ''BAD'' then (Inl ''Failed to place Alpaca order: rejected'', Suc w)
         else (Inr \<lparr> orderId = ''ord-'' @ symbol ord, b_symbol = symbol ord, b_qty = qty ord,
                     b_side = side ord, b_type = otype ord, status = ''new'',
                     filledQty = None, avgFillPrice = None, b_timestamp = int w \<rparr>, Suc w)),
       getOrderHistory = (\<lambda>w. (Inr [filledAapl], Suc w)) \<rparr>"

definition downBroker :: "nat broker" where
  "downBroker =
     \<lparr> authenticate = (\<lambda>w. (Inl ''Alpaca authentication failed'', Suc w)),
       placeOrder = (\<lambda>ord w. (Inl ''Failed to place Alpaca order: timeout'', Suc w)),
       getOrderHistory = (\<lambda>w. (Inl ''Failed to get Alpaca order history: timeout'', Suc w)) \<rparr>"

definition paperEnv :: "nat broker \<Rightarrow> nat env" where
  "paperEnv b = \<lparr> brokers = [(''alpaca'', b)], dateString = (\<lambda>w. jan1),
                  nowMs = (\<lambda>w. 1000 * int w) \<rparr>"

definition idleEngine :: engine where
  "idleEngine = \<lparr> strategies = [], positions = [], orders = [], running = False,
                  riskManager = Some (newRiskManager limitsAB jan1), emitted = [] \<rparr>"

definition dupEngine :: engine where
  "dupEngine = idleEngine\<lparr>orders :=
     [(''ord-AAPL'', registryEntry filledAapl ''EarlierStrategy'' (mkSignal ''AAPL'' ''buy'' 5))]\<rparr>"

definition newAapl :: broker_order where
  "newAapl = \<lparr> orderId = ''ord-AAPL'', b_symbol = ''AAPL'', b_qty = 5, b_side = ''sell'',
       b_type = ''market'', status = ''new'', filledQty = None, avgFillPrice = None,
       b_timestamp = 0 \<rparr>"

definition tradingEngine :: "strategy \<Rightarrow> risk_manager option \<Rightarrow> engine" where
  "tradingEngine st rm = \<lparr> strategies = [(''news'', st)], positions = [], orders = [],
       running = True, riskManager = rm, emitted = [] \<rparr>"

definition pendingOrder :: "string \<Rightarrow> order_info" where
  "pendingOrder symb = registryEntry
     \<lparr> orderId = ''ord-'' @ symb, b_symbol = symb, b_qty = 5, b_side = ''buy'',
       b_type = ''market'', status = ''new'', filledQty = None, avgFillPrice = None,
       b_timestamp = 0 \<rparr> ''NewsBasedStrategy'' (mkSignal symb ''buy'' 5)"

definition reconEngine :: engine where
  "reconEngine = idleEngine\<lparr>orders :=
     [(''ord-AAPL'', pendingOrder ''AAPL''), (''ord-MSFT'', pendingOrder ''MSFT'')]\<rparr>"

definition flatStrategy :: strategy where
  "flatStrategy = newsStrategy (newsConfig (6 / 10) 3600000) (aaplSummary (7 / 10))"

definition aaplAnalysis :: analysis where
  "aaplAnalysis = \<lparr> sentimentScore = 7 / 10, buzzScore = 60, newsMentions = 2 \<rparr>"

section \<open>Properties of the risk manager\<close>

lemma rlog_fields [simp]:
  "config (rlog rm m) = config rm" "dailyPnl (rlog rm m) = dailyPnl rm"
  "dailyTrades (rlog rm m) = dailyTrades rm" "lastResetDate (rlog rm m) = lastResetDate rm"
  by (simp_all add: rlog_def)

lemma vpr_snd:
  "validatePortfolioRisk rm ord ps = (b, rm') \<Longrightarrow>
     config rm' = config rm \<and> dailyPnl rm' = dailyPnl rm \<and> dailyTrades rm' = dailyTrades rm
     \<and> lastResetDate rm' = lastResetDate rm"
  by (auto simp add: validatePortfolioRisk_def Let_def split: if_splits)

lemma vpc_snd:
  "validatePositionConcentration rm ord ps = (b, rm') \<Longrightarrow>
     config rm' = config rm \<and> dailyPnl rm' = dailyPnl rm \<and> dailyTrades rm' = dailyTrades rm
     \<and> lastResetDate rm' = lastResetDate rm"
  by (auto simp add: validatePositionConcentration_def Let_def split: if_splits)

lemma validateOrder_snd:
  assumes "validateOrder rm0 today ord ps = (b, rm')"
  shows "config rm' = config rm0 \<and> dailyPnl rm' = dailyPnl (resetDailyCountersIfNeeded rm0 today)
     \<and> dailyTrades rm' = dailyTrades (resetDailyCountersIfNeeded rm0 today)
     \<and> lastResetDate rm' = today"
proof -
  define rm where "rm = resetDailyCountersIfNeeded rm0 today"
  have r: "config rm = config rm0" "lastResetDate rm = today"
    by (simp_all add: rm_def resetDailyCountersIfNeeded_def rlog_def)
  obtain b1 rm1 where p: "validatePortfolioRisk rm ord (flattenPositions ps) = (b1, rm1)"
    by (cases "validatePortfolioRisk rm ord (flattenPositions ps)")
  obtain b2 rm2 where c: "validatePositionConcentration rm1 ord (flattenPositions ps) = (b2, rm2)"
    by (cases "validatePositionConcentration rm1 ord (flattenPositions ps)")
  from assms have "rm' = rlog rm (Blacklisted (symbol ord)) \<or> rm' = rlog rm (DailyLossLimitReached (dailyPnl rm))
     \<or> rm' = rlog rm (PositionSizeTooLarge (qty ord))
     \<or> rm' = rlog rm (TooManyOpenPositions (length (flattenPositions ps)))
     \<or> rm' = rm1 \<or> rm' = rm2"
    unfolding validateOrder_def Let_def rm_def[symmetric] p
    by (cases b1) (auto simp add: c split: if_splits)
  with vpr_snd[OF p] vpc_snd[OF c] r show ?thesis
    unfolding rm_def[symmetric] by auto
qed


lemma validateOrder_fst:
  "fst (validateOrder rm0 today ord ps) =
     (let rm = resetDailyCountersIfNeeded rm0 today; allPositions = flattenPositions ps in
        symbol ord \<notin> set (blacklistedSymbols (config rm))
      \<and> \<not> dailyPnl rm \<le> - maxDailyLoss (config rm)
      \<and> \<not> orderValue ord > maxPositionSize (config rm)
      \<and> \<not> (of_nat (length allPositions) \<ge> maxOpenPositions (config rm) \<and> side ord = ''buy'')
      \<and> (totalAbsValue allPositions = 0
           \<or> \<not> orderValue ord / totalAbsValue allPositions > maxPortfolioRisk (config rm))
      \<and> \<not> totalAbsValue (filter (\<lambda>pos. p_symbol pos = symbol ord) allPositions) + orderValue ord
             > maxPositionSize (config rm))"
  by (simp add: validateOrder_def validatePortfolioRisk_def validatePositionConcentration_def
      Let_def split: prod.splits bool.splits)

text \<open>
  C2 (daily-loss stop with lazy reset). While the clock's date is still the date of the
  last reset and the daily P&L is at or below \<open>- maxDailyLoss\<close>, \<open>validateOrder\<close> rejects
  every order, whatever the positions. On a call whose date differs from the last reset
  date the counters are set to zero (and the date is updated) before any check runs: the
  call leaves \<open>dailyPnl = 0\<close>, \<open>dailyTrades = 0\<close>, and its decision is the decision a risk
  manager with fresh counters takes, so an order that is valid apart from the stale
  counters is accepted.
\<close>

theorem validateOrder_daily_loss_lazy_reset:
  "(lastResetDate rm = today \<and> dailyPnl rm \<le> - maxDailyLoss (config rm)
      \<longrightarrow> \<not> fst (validateOrder rm today ord ps))
   \<and> (lastResetDate rm \<noteq> today
      \<longrightarrow> dailyPnl (snd (validateOrder rm today ord ps)) = 0
        \<and> dailyTrades (snd (validateOrder rm today ord ps)) = 0
        \<and> lastResetDate (snd (validateOrder rm today ord ps)) = today
        \<and> fst (validateOrder rm today ord ps)
            = fst (validateOrder (rm\<lparr>dailyPnl := 0, dailyTrades := 0, lastResetDate := today\<rparr>)
                     today ord ps))"
proof (intro conjI impI)
  assume "lastResetDate rm = today \<and> dailyPnl rm \<le> - maxDailyLoss (config rm)"
  then show "\<not> fst (validateOrder rm today ord ps)"
    by (simp add: validateOrder_fst resetDailyCountersIfNeeded_def Let_def)
next
  assume d: "lastResetDate rm \<noteq> today"
  obtain b rm' where v: "validateOrder rm today ord ps = (b, rm')"
    by (cases "validateOrder rm today ord ps")
  from validateOrder_snd[OF v] d
  show "dailyPnl (snd (validateOrder rm today ord ps)) = 0"
    and "dailyTrades (snd (validateOrder rm today ord ps)) = 0"
    and "lastResetDate (snd (validateOrder rm today ord ps)) = today"
    by (simp_all add: v resetDailyCountersIfNeeded_def)
  from d show "fst (validateOrder rm today ord ps)
            = fst (validateOrder (rm\<lparr>dailyPnl := 0, dailyTrades := 0, lastResetDate := today\<rparr>)
                     today ord ps)"
    by (simp add: validateOrder_fst resetDailyCountersIfNeeded_def Let_def)
qed

text \<open>
  Scenario E: counters of 2024-01-01 with \<open>dailyPnl = -500\<close> and \<open>maxDailyLoss = 500\<close>.
  The order is rejected on 2024-01-01 and accepted by the first call on 2024-01-02.
\<close>

theorem validateOrder_daily_loss_lazy_reset_witness:
  "lastResetDate staleManager = jan1 \<and> dailyPnl staleManager \<le> - maxDailyLoss (config staleManager)
   \<and> \<not> fst (validateOrder staleManager jan1 (aaplBuy 10) (PMap []))
   \<and> lastResetDate staleManager \<noteq> jan2
   \<and> fst (validateOrder staleManager jan2 (aaplBuy 10) (PMap []))
   \<and> dailyPnl (snd (validateOrder staleManager jan2 (aaplBuy 10) (PMap []))) = 0
   \<and> dailyTrades (snd (validateOrder staleManager jan2 (aaplBuy 10) (PMap []))) = 0
   \<and> lastResetDate (snd (validateOrder staleManager jan2 (aaplBuy 10) (PMap []))) = jan2"
proof -
  have a: "lastResetDate staleManager = jan1 \<and> dailyPnl staleManager \<le> - maxDailyLoss (config staleManager)"
    by (simp add: staleManager_def newRiskManager_def limitsAB_def)
  have b: "lastResetDate staleManager \<noteq> jan2"
    by (simp add: staleManager_def newRiskManager_def jan1_def jan2_def)
  have c: "fst (validateOrder (staleManager\<lparr>dailyPnl := 0, dailyTrades := 0, lastResetDate := jan2\<rparr>)
             jan2 (aaplBuy 10) (PMap []))"
    by (simp add: validateOrder_def validatePortfolioRisk_def validatePositionConcentration_def
        resetDailyCountersIfNeeded_def staleManager_def newRiskManager_def limitsAB_def aaplBuy_def
        orderValue_def js_or_def totalAbsValue_def Let_def)
  from a b c
    validateOrder_daily_loss_lazy_reset[of staleManager jan1 "aaplBuy 10" "PMap []"]
    validateOrder_daily_loss_lazy_reset[of staleManager jan2 "aaplBuy 10" "PMap []"]
  show ?thesis by simp
qed

text \<open>
  C3 (the position-size boundary is not strict). With \<open>maxPositionSize = 1000\<close>,
  \<open>maxDailyLoss = 500\<close>, the other limits at their defaults, fresh counters and no
  positions, the buy order of 10 AAPL at limit price 100 (notional exactly 1000) is
  accepted and nothing is logged; the same order for 11 (notional 1100) is rejected, and
  the one message logged is "Position size too large".
\<close>

theorem validateOrder_size_boundary:
  "validateOrder (newRiskManager limitsAB jan1) jan1 (aaplBuy 10) (PMap [])
     = (True, newRiskManager limitsAB jan1)
   \<and> orderValue (aaplBuy 10) = 1000
   \<and> validateOrder (newRiskManager limitsAB jan1) jan1 (aaplBuy 11) (PMap [])
     = (False, rlog (newRiskManager limitsAB jan1) (PositionSizeTooLarge 11))
   \<and> orderValue (aaplBuy 11) = 1100"
  by (simp add: validateOrder_def validatePortfolioRisk_def validatePositionConcentration_def
        resetDailyCountersIfNeeded_def newRiskManager_def limitsAB_def aaplBuy_def
        orderValue_def js_or_def totalAbsValue_def Let_def rlog_def)

text \<open>
  C9 (sell orders pass the same size and concentration checks). A sell order whose
  notional \<open>qty * (limitPrice || 100)\<close> exceeds \<open>maxPositionSize\<close> is rejected (a limit
  price of \<open>0\<close> counts as not given; with a limit that is not negative the same holds
  when the price \<open>0\<close> is taken as it is). The
  notional and the concentration check do not read the side at all; the only check that
  does is the one on open positions, so below \<open>maxOpenPositions\<close> a sell order is
  decided exactly as the same order with side buy, and in any case a sell order is
  accepted whenever the buy order is.
\<close>

theorem sell_orders_checked_like_buys:
  "(side ord = ''sell'' \<and> orderValue ord > maxPositionSize (config rm)
       \<longrightarrow> \<not> fst (validateOrder rm today ord ps))
   \<and> (side ord = ''sell'' \<and> 0 \<le> maxPositionSize (config rm)
        \<and> qty ord * (case limitPrice ord of None \<Rightarrow> 100 | Some p \<Rightarrow> p)
            > maxPositionSize (config rm)
       \<longrightarrow> \<not> fst (validateOrder rm today ord ps))
   \<and> orderValue (ord\<lparr>side := s\<rparr>) = orderValue ord
   \<and> validatePositionConcentration rm (ord\<lparr>side := s\<rparr>) qs
       = validatePositionConcentration rm ord qs
   \<and> (of_nat (length (flattenPositions ps)) < maxOpenPositions (config rm)
       \<longrightarrow> fst (validateOrder rm today (ord\<lparr>side := ''sell''\<rparr>) ps)
           = fst (validateOrder rm today (ord\<lparr>side := ''buy''\<rparr>) ps))
   \<and> (fst (validateOrder rm today (ord\<lparr>side := ''buy''\<rparr>) ps)
       \<longrightarrow> fst (validateOrder rm today (ord\<lparr>side := ''sell''\<rparr>) ps))"
  by (auto simp add: validateOrder_fst validatePositionConcentration_def orderValue_def
      js_or_def resetDailyCountersIfNeeded_def Let_def split: option.splits if_splits)

theorem sell_orders_checked_like_buys_witness:
  "side (aaplSell 11) = ''sell''
   \<and> orderValue (aaplSell 11) > maxPositionSize (config (newRiskManager limitsAB jan1))
   \<and> 0 \<le> maxPositionSize (config (newRiskManager limitsAB jan1))
   \<and> qty (aaplSell 11) * (case limitPrice (aaplSell 11) of None \<Rightarrow> 100 | Some p \<Rightarrow> p)
        > maxPositionSize (config (newRiskManager limitsAB jan1))
   \<and> \<not> fst (validateOrder (newRiskManager limitsAB jan1) jan1 (aaplSell 11) (PMap []))
   \<and> of_nat (length (flattenPositions (PMap [])))
        < maxOpenPositions (config (newRiskManager limitsAB jan1))
   \<and> fst (validateOrder (newRiskManager limitsAB jan1) jan1 ((aaplSell 10)\<lparr>side := ''buy''\<rparr>) (PMap []))
   \<and> fst (validateOrder (newRiskManager limitsAB jan1) jan1 ((aaplSell 10)\<lparr>side := ''sell''\<rparr>) (PMap []))"
proof -
  have a: "side (aaplSell 11) = ''sell''
     \<and> orderValue (aaplSell 11) > maxPositionSize (config (newRiskManager limitsAB jan1))"
    by (simp add: aaplSell_def orderValue_def js_or_def newRiskManager_def limitsAB_def)
  have a': "0 \<le> maxPositionSize (config (newRiskManager limitsAB jan1))
     \<and> qty (aaplSell 11) * (case limitPrice (aaplSell 11) of None \<Rightarrow> 100 | Some p \<Rightarrow> p)
        > maxPositionSize (config (newRiskManager limitsAB jan1))"
    by (simp add: aaplSell_def newRiskManager_def limitsAB_def)
  have b: "of_nat (length (flattenPositions (PMap [])))
        < maxOpenPositions (config (newRiskManager limitsAB jan1))"
    by (simp add: newRiskManager_def limitsAB_def)
  have c: "fst (validateOrder (newRiskManager limitsAB jan1) jan1 ((aaplSell 10)\<lparr>side := ''buy''\<rparr>) (PMap []))"
    by (simp add: validateOrder_def validatePortfolioRisk_def validatePositionConcentration_def
        resetDailyCountersIfNeeded_def newRiskManager_def limitsAB_def aaplSell_def
        orderValue_def js_or_def totalAbsValue_def Let_def)
  from a a' b c
    sell_orders_checked_like_buys[of "aaplSell 11" "newRiskManager limitsAB jan1" jan1 "PMap []" "''buy''" "[]"]
    sell_orders_checked_like_buys[of "aaplSell 10" "newRiskManager limitsAB jan1" jan1 "PMap []" "''buy''" "[]"]
  show ?thesis by simp
qed

section \<open>Properties of the strategy and the engine\<close>

lemma js_le_div: "b \<noteq> 0 \<Longrightarrow> js_le (js_div a b) c = (a / b \<le> c)"
  by (simp add: js_div_def)

lemma js_ge_div: "b \<noteq> 0 \<Longrightarrow> js_ge (js_div a b) c = (a / b \<ge> c)"
  by (simp add: js_div_def)

lemma createSignal_fst:
  "fst (createSignal st symb act quant rsn now) =
     \<lparr> sg_symbol = symb, action = act, quantity = quant, orderType = ''market'',
       sg_limitPrice = None, sg_stopPrice = None, sg_timeInForce = ''gtc'',
       sg_strategyName = name st, timestamp = now, reason = rsn, preferredBroker = None \<rparr>"
  by (simp add: createSignal_def Let_def)

lemma createSignal_snd [simp]:
  "activePositions (snd (createSignal st symb act quant rsn now)) = activePositions st"
  "s_config (snd (createSignal st symb act quant rsn now)) = s_config st"
  "name (snd (createSignal st symb act quant rsn now)) = name st"
  "watchlist (snd (createSignal st symb act quant rsn now)) = watchlist st"
  "enabled (snd (createSignal st symb act quant rsn now)) = enabled st"
  by (simp_all add: createSignal_def Let_def)

lemma slog_fields [simp]:
  "activePositions (slog st m) = activePositions st" "s_config (slog st m) = s_config st"
  "name (slog st m) = name st" "watchlist (slog st m) = watchlist st"
  "enabled (slog st m) = enabled st" "lastSignals (slog st m) = lastSignals st"
  by (simp_all add: slog_def)

text \<open>
  C4 (sell rule: disjunction and priority of the reason code). For a symbol with an
  active entry, \<open>evaluateSellSignal\<close> emits a sell signal exactly when one of the four
  conditions holds: the holding time has reached the holding period, the sentiment is at
  or below minus the threshold, the return \<open>(currentPrice - entryPrice) / entryPrice\<close> is
  at or below \<open>-5%\<close>, or it is at or above \<open>+10%\<close>. The reason code of the signal is the
  first of the four that holds, in that order, and the entry of the symbol is deleted
  (the symbol is flat again). When none holds, nothing is emitted and nothing changes.
  The signal's \<open>reason\<close> text is the reason code followed by the P&L in percent.
\<close>

theorem evaluateSellSignal_rule:
  "activePositions st symb = Some pos \<Longrightarrow>
   (let ret = js_div (currentPrice - entryPrice pos) (entryPrice pos);
        held = (of_int (now - entryTime pos) \<ge> holdingPeriod (s_config st));
        negative = (sentimentScore an \<le> - sentimentThreshold (s_config st));
        loss = js_le ret (- (5 / 100));
        profit = js_ge ret (10 / 100);
        res = evaluateSellSignal st symb an currentPrice now
    in (if held \<or> negative \<or> loss \<or> profit
        then (\<exists>sig. fst res = Some sig \<and> sg_symbol sig = symb \<and> action sig = ''sell''
                \<and> quantity sig = positionSize (s_config st)
                \<and> reason sig = SellReason
                     (if held then ''holding_period_exceeded''
                      else if negative then ''negative_sentiment''
                      else if loss then ''stop_loss'' else ''take_profit'')
                     (js_scale ret 100))
             \<and> activePositions (snd res) symb = None
        else res = (None, st))
       \<and> (entryPrice pos \<noteq> 0 \<longrightarrow>
            loss = ((currentPrice - entryPrice pos) / entryPrice pos \<le> - (5 / 100))
          \<and> profit = ((currentPrice - entryPrice pos) / entryPrice pos \<ge> 10 / 100)))"
  unfolding Let_def
  by (simp add: evaluateSellSignal_def Let_def js_le_div js_ge_div createSignal_fst
      case_prod_beta)

lemmas scenario_defs = heldAt150_def newsStrategy_def newsConfig_def aaplSummary_def aaplMarket_def

text \<open>
  Scenario D: entry price 150, current price 142.5 (a return of exactly \<open>-5%\<close>), one
  second into a holding period of one hour, sentiment 0.7: a sell signal with reason
  code \<open>stop_loss\<close>.
\<close>

theorem evaluateSellSignal_rule_witness:
  "activePositions heldAt150 ''AAPL''
     = Some \<lparr> entryTime = 0, entryPrice = 150, sp_reason = ''positive_sentiment_buzz'' \<rparr>
   \<and> (\<exists>sig. fst (evaluateSellSignal heldAt150 ''AAPL''
                   \<lparr> sentimentScore = 7 / 10, buzzScore = 60, newsMentions = 2 \<rparr> (285 / 2) 1000)
               = Some sig
            \<and> action sig = ''sell''
            \<and> reason sig = SellReason ''stop_loss'' (Fin (- 5)))
   \<and> activePositions (snd (evaluateSellSignal heldAt150 ''AAPL''
          \<lparr> sentimentScore = 7 / 10, buzzScore = 60, newsMentions = 2 \<rparr> (285 / 2) 1000)) ''AAPL''
       = None"
proof -
  have a: "activePositions heldAt150 ''AAPL''
     = Some \<lparr> entryTime = 0, entryPrice = 150, sp_reason = ''positive_sentiment_buzz'' \<rparr>"
    by (simp add: scenario_defs)
  have c: "s_config heldAt150 = newsConfig (6 / 10) 3600000"
    by (simp add: scenario_defs)
  from evaluateSellSignal_rule[OF a, of "285 / 2" 1000
      "\<lparr> sentimentScore = 7 / 10, buzzScore = 60, newsMentions = 2 \<rparr>"] a
  show ?thesis
    by (auto simp add: Let_def c newsConfig_def js_div_def)
qed

text \<open>
  C5 (at most one signal per symbol and evaluation) does not hold of \<open>evaluate\<close>: the
  sell check runs on the entry that the buy check of the same pass has just made. With
  \<open>sentimentThreshold = 0\<close> and a sentiment of \<open>0\<close>, or with \<open>holdingPeriod = 0\<close> and the
  default thresholds, one call returns a buy and a sell signal for the same symbol.
\<close>

theorem evaluate_buy_then_sell_same_symbol:
  "map (\<lambda>s. (sg_symbol s, action s, reason s))
     (fst (evaluate (newsStrategy (newsConfig 0 3600000) (aaplSummary 0)) (aaplMarket 150) 1000))
     = [(''AAPL'', ''buy'', PositiveSentimentBuzz 0 60),
        (''AAPL'', ''sell'', SellReason ''negative_sentiment'' (Fin 0))]
   \<and> activePositions
       (snd (evaluate (newsStrategy (newsConfig 0 3600000) (aaplSummary 0)) (aaplMarket 150) 1000))
       ''AAPL'' = None
   \<and> map (\<lambda>s. (sg_symbol s, action s, reason s))
     (fst (evaluate (newsStrategy (newsConfig (6 / 10) 0) (aaplSummary (7 / 10))) (aaplMarket 150) 1000))
     = [(''AAPL'', ''buy'', PositiveSentimentBuzz (7 / 10) 60),
        (''AAPL'', ''sell'', SellReason ''holding_period_exceeded'' (Fin 0))]"
  by (simp add: evaluate_def evaluateBuySignal_def evaluateSellSignal_def createSignal_def
      scenario_defs slog_def js_div_def Let_def)

lemma emit_fields [simp]:
  "orders (emit eng e) = orders eng" "strategies (emit eng e) = strategies eng"
  "positions (emit eng e) = positions eng" "running (emit eng e) = running eng"
  "riskManager (emit eng e) = riskManager eng" "emitted (emit eng e) = emitted eng @ [e]"
  by (simp_all add: emit_def)

lemma map_of_mapSet: "map_of (mapSet k v xs) = (map_of xs)(k \<mapsto> v)"
  by (induction xs) (auto simp add: fun_eq_iff)

lemma keys_mapSet:
  "(k, u) \<in> set xs \<Longrightarrow> map fst (mapSet k v xs) = map fst xs"
  by (induction xs) auto

lemma mapSet_middle:
  "k \<notin> fst ` set pre \<Longrightarrow> mapSet k v (pre @ (k, u) # post) = pre @ (k, v) # post"
  by (induction pre) auto

lemma validateSignal_fields:
  "orders (snd (validateSignal env eng sig nm w)) = orders eng"
  "strategies (snd (validateSignal env eng sig nm w)) = strategies eng"
  by (simp_all add: validateSignal_def case_prod_beta split: option.splits)

lemma executeSignal_strategies:
  "strategies (fst (executeSignal env eng sig nm w)) = strategies eng"
  by (simp add: executeSignal_def case_prod_beta Let_def split: option.splits sum.splits)

lemma executeSignal_failure:
  "selectBroker env sig = Some b \<Longrightarrow> placeOrder b (signalOrder sig) w = (Inl err, w') \<Longrightarrow>
     executeSignal env eng sig nm w = (emit eng (OrderFailed sig err nm), w')"
  by (simp add: executeSignal_def)

lemma executeSignal_success:
  "selectBroker env sig = Some b \<Longrightarrow> placeOrder b (signalOrder sig) w = (Inr result, w') \<Longrightarrow>
     executeSignal env eng sig nm w =
       (emit (eng\<lparr>orders := mapSet (orderId result) (registryEntry result nm sig) (orders eng)\<rparr>)
          (OrderPlaced (orderId result) result nm sig), w')"
  by (simp add: executeSignal_def)

lemma executeSignal_no_broker:
  "selectBroker env sig = None \<Longrightarrow> orders (fst (executeSignal env eng sig nm w)) = orders eng"
  by (simp add: executeSignal_def)

lemma selectBroker_in:
  "selectBroker env sig = Some b \<Longrightarrow> b \<in> snd ` set (brokers env)"
  by (auto simp add: selectBroker_def split: option.splits if_splits list.splits
      dest!: map_of_SomeD intro: rev_image_eqI)

lemma processSignals_strategies:
  "strategies (fst (processSignals env eng sigs nm w)) = strategies eng"
proof (induction sigs arbitrary: eng w)
  case Nil
  then show ?case by simp
next
  case (Cons sig rest)
  obtain v eng1 where v: "validateSignal env eng sig nm w = (v, eng1)"
    by (cases "validateSignal env eng sig nm w")
  have e1: "strategies eng1 = strategies eng"
    using validateSignal_fields(2)[of env eng sig nm w] by (simp add: v)
  show ?case
  proof (cases v)
    case None
    with v e1 Cons.IH show ?thesis by simp
  next
    case (Some vs)
    obtain eng2 w2 where x: "executeSignal env eng1 vs nm w = (eng2, w2)"
      by (cases "executeSignal env eng1 vs nm w")
    have "strategies eng2 = strategies eng1"
      using executeSignal_strategies[of env eng1 vs nm w] by (simp add: x)
    with v e1 Some x Cons.IH show ?thesis by simp
  qed
qed

lemma processSignals_all_fail:
  assumes "\<forall>b \<in> snd ` set (brokers env). \<forall>ord w'. isl (fst (placeOrder b ord w'))"
  shows "orders (fst (processSignals env eng sigs nm w)) = orders eng"
proof (induction sigs arbitrary: eng w)
  case Nil
  then show ?case by simp
next
  case (Cons sig rest)
  obtain v eng1 where v: "validateSignal env eng sig nm w = (v, eng1)"
    by (cases "validateSignal env eng sig nm w")
  have e1: "orders eng1 = orders eng"
    using validateSignal_fields(1)[of env eng sig nm w] by (simp add: v)
  show ?case
  proof (cases v)
    case None
    with v e1 Cons.IH show ?thesis by simp
  next
    case (Some vs)
    obtain eng2 w2 where x: "executeSignal env eng1 vs nm w = (eng2, w2)"
      by (cases "executeSignal env eng1 vs nm w")
    have "orders eng2 = orders eng1"
    proof (cases "selectBroker env vs")
      case None
      then show ?thesis using executeSignal_no_broker[of env vs eng1 nm w] by (simp add: x)
    next
      case (Some b)
      then have "b \<in> snd ` set (brokers env)" by (rule selectBroker_in)
      with assms have "isl (fst (placeOrder b (signalOrder vs) w))" by blast
      then obtain err w' where "placeOrder b (signalOrder vs) w = (Inl err, w')"
        by (cases "placeOrder b (signalOrder vs) w") (auto simp add: isl_def)
      from executeSignal_failure[OF Some this, of eng1 nm] x show ?thesis by simp
    qed
    with v e1 Some x Cons.IH show ?thesis by simp
  qed
qed

lemma processSignals_step:
  "processSignals env eng (sig # rest) nm w =
     (case processSignals env eng [sig] nm w of (eng1, w1) \<Rightarrow> processSignals env eng1 rest nm w1)"
  by (simp split: prod.splits option.splits)

lemmas engine_scenario_defs = mkSignal_def paperBroker_def downBroker_def paperEnv_def
  idleEngine_def filledAapl_def

text \<open>
  C1 (order submission is atomic for the registry). In \<open>executeSignal\<close>, when
  \<open>placeOrder\<close> returns an order, the registry gets the entry of that order under its
  \<open>orderId\<close>; when \<open>placeOrder\<close> throws (or there is no broker to call), the registry is
  unchanged and only an \<open>order_failed\<close> event is emitted. A signal that validation drops
  never reaches the broker and leaves the registry unchanged. The loop of
  \<open>processSignals\<close> goes on with the remaining signals from the state the signal left,
  whatever happened to it; and when every broker call fails, the registry after the
  whole loop is the registry before it.
\<close>

theorem order_registry_atomicity:
  "(selectBroker env sig = Some b \<and> placeOrder b (signalOrder sig) w = (Inr result, w')
      \<longrightarrow> orders (fst (executeSignal env eng sig nm w))
            = mapSet (orderId result) (registryEntry result nm sig) (orders eng)
        \<and> map_of (orders (fst (executeSignal env eng sig nm w))) (orderId result)
            = Some (registryEntry result nm sig))
   \<and> (selectBroker env sig = Some b \<and> placeOrder b (signalOrder sig) w = (Inl err, w')
      \<longrightarrow> executeSignal env eng sig nm w = (emit eng (OrderFailed sig err nm), w')
        \<and> orders (fst (executeSignal env eng sig nm w)) = orders eng)
   \<and> (selectBroker env sig = None
      \<longrightarrow> orders (fst (executeSignal env eng sig nm w)) = orders eng)
   \<and> (fst (validateSignal env eng sig nm w) = None
      \<longrightarrow> orders (fst (processSignals env eng [sig] nm w)) = orders eng)
   \<and> processSignals env eng (sig # rest) nm w
        = (case processSignals env eng [sig] nm w of
             (eng1, w1) \<Rightarrow> processSignals env eng1 rest nm w1)
   \<and> ((\<forall>b \<in> snd ` set (brokers env). \<forall>ord w'. isl (fst (placeOrder b ord w')))
      \<longrightarrow> orders (fst (processSignals env eng sigs nm w)) = orders eng)"
proof (intro conjI impI)
  assume a: "selectBroker env sig = Some b \<and> placeOrder b (signalOrder sig) w = (Inr result, w')"
  then have x: "executeSignal env eng sig nm w =
       (emit (eng\<lparr>orders := mapSet (orderId result) (registryEntry result nm sig) (orders eng)\<rparr>)
          (OrderPlaced (orderId result) result nm sig), w')"
    by (simp add: executeSignal_success)
  show "orders (fst (executeSignal env eng sig nm w))
            = mapSet (orderId result) (registryEntry result nm sig) (orders eng)"
    by (simp add: x)
  show "map_of (orders (fst (executeSignal env eng sig nm w))) (orderId result)
            = Some (registryEntry result nm sig)"
    by (simp add: x map_of_mapSet)
next
  assume a: "selectBroker env sig = Some b \<and> placeOrder b (signalOrder sig) w = (Inl err, w')"
  then show x: "executeSignal env eng sig nm w = (emit eng (OrderFailed sig err nm), w')"
    by (simp add: executeSignal_failure)
  show "orders (fst (executeSignal env eng sig nm w)) = orders eng"
    by (simp add: x)
next
  assume "selectBroker env sig = None"
  then show "orders (fst (executeSignal env eng sig nm w)) = orders eng"
    by (rule executeSignal_no_broker)
next
  assume n: "fst (validateSignal env eng sig nm w) = None"
  obtain v eng1 where v: "validateSignal env eng sig nm w = (v, eng1)"
    by (cases "validateSignal env eng sig nm w")
  with n validateSignal_fields(1)[of env eng sig nm w]
  show "orders (fst (processSignals env eng [sig] nm w)) = orders eng"
    by simp
next
  show "processSignals env eng (sig # rest) nm w
        = (case processSignals env eng [sig] nm w of
             (eng1, w1) \<Rightarrow> processSignals env eng1 rest nm w1)"
    by (rule processSignals_step)
next
  assume "\<forall>b \<in> snd ` set (brokers env). \<forall>ord w'. isl (fst (placeOrder b ord w'))"
  then show "orders (fst (processSignals env eng sigs nm w)) = orders eng"
    by (rule processSignals_all_fail)
qed

lemma validateOrder_eval:
  "validateOrder (newRiskManager limitsAB jan1) jan1
     \<lparr> symbol = s, qty = 5, side = a, otype = ''market'', limitPrice = None \<rparr> (PMap [])
     = (True, newRiskManager limitsAB jan1)"
  by (simp add: validateOrder_def validatePortfolioRisk_def validatePositionConcentration_def
        resetDailyCountersIfNeeded_def newRiskManager_def limitsAB_def
        orderValue_def js_or_def totalAbsValue_def Let_def)

lemma scenario_select [simp]:
  "selectBroker (paperEnv b) (mkSignal s a q) = Some b"
  by (simp add: selectBroker_def paperEnv_def mkSignal_def)

lemma scenario_validate [simp]:
  "s \<noteq> [] \<Longrightarrow> a \<noteq> [] \<Longrightarrow> validateSignal (paperEnv b) idleEngine (mkSignal s a 5) nm w = (Some (mkSignal s a 5), idleEngine)"
  by (simp add: validateSignal_def idleEngine_def mkSignal_def paperEnv_def validateOrder_eval)

lemma scenario_validate_after [simp]:
  "s \<noteq> [] \<Longrightarrow> a \<noteq> [] \<Longrightarrow> validateSignal (paperEnv b) (emit idleEngine e) (mkSignal s a 5) nm w = (Some (mkSignal s a 5), emit idleEngine e)"
  by (simp add: validateSignal_def idleEngine_def mkSignal_def paperEnv_def validateOrder_eval emit_def)

text \<open>
  A broker that rejects the symbol \<open>BAD\<close>: of the signals for \<open>BAD\<close> and \<open>AAPL\<close> only the
  second is registered. With a broker that is down nothing is registered.
\<close>

theorem order_registry_atomicity_witness:
  "selectBroker (paperEnv paperBroker) (mkSignal ''BAD'' ''buy'' 5) = Some paperBroker
   \<and> placeOrder paperBroker (signalOrder (mkSignal ''BAD'' ''buy'' 5)) 0
       = (Inl ''Failed to place Alpaca order: rejected'', 1)
   \<and> orders (fst (executeSignal (paperEnv paperBroker) idleEngine (mkSignal ''BAD'' ''buy'' 5)
                    ''NewsBasedStrategy'' 0)) = []
   \<and> map fst (orders (fst (processSignals (paperEnv paperBroker) idleEngine
         [mkSignal ''BAD'' ''buy'' 5, mkSignal ''AAPL'' ''buy'' 5] ''NewsBasedStrategy'' 0)))
       = [''ord-AAPL'']
   \<and> isl (fst (placeOrder downBroker (signalOrder (mkSignal ''MSFT'' ''buy'' 5)) 0))
   \<and> orders (fst (processSignals (paperEnv downBroker) idleEngine
         [mkSignal ''MSFT'' ''buy'' 5, mkSignal ''AAPL'' ''buy'' 5] ''NewsBasedStrategy'' 0)) = []
   \<and> fst (validateSignal (paperEnv paperBroker) idleEngine (mkSignal ''AAPL'' ''buy'' 100)
             ''NewsBasedStrategy'' 0) = None
   \<and> orders (fst (processSignals (paperEnv paperBroker) idleEngine
         [mkSignal ''AAPL'' ''buy'' 100] ''NewsBasedStrategy'' 0)) = []
   \<and> selectBroker (paperEnv paperBroker) (mkSignal ''AAPL'' ''buy'' 5) = Some paperBroker
   \<and> (\<exists>r. placeOrder paperBroker (signalOrder (mkSignal ''AAPL'' ''buy'' 5)) 0 = (Inr r, 1)
          \<and> map_of (orders (fst (executeSignal (paperEnv paperBroker) idleEngine
                 (mkSignal ''AAPL'' ''buy'' 5) ''NewsBasedStrategy'' 0))) ''ord-AAPL''
              = Some (registryEntry r ''NewsBasedStrategy'' (mkSignal ''AAPL'' ''buy'' 5)))
   \<and> selectBroker (paperEnv paperBroker\<lparr>brokers := []\<rparr>) (mkSignal ''AAPL'' ''buy'' 5) = None
   \<and> orders (fst (executeSignal (paperEnv paperBroker\<lparr>brokers := []\<rparr>) idleEngine
         (mkSignal ''AAPL'' ''buy'' 5) ''NewsBasedStrategy'' 0)) = []"
proof -
  let ?bad = "mkSignal ''BAD'' ''buy'' 5" and ?aapl = "mkSignal ''AAPL'' ''buy'' 5"
  let ?r = "\<lparr> orderId = ''ord-AAPL'', b_symbol = ''AAPL'', b_qty = 5, b_side = ''buy'',
       b_type = ''market'', status = ''new'', filledQty = None, avgFillPrice = None,
       b_timestamp = 0 \<rparr>"
  have s1: "selectBroker (paperEnv paperBroker) ?bad = Some paperBroker" by simp
  have p1: "placeOrder paperBroker (signalOrder ?bad) 0
       = (Inl ''Failed to place Alpaca order: rejected'', 1)"
    by (simp add: paperBroker_def signalOrder_def mkSignal_def)
  have s2: "selectBroker (paperEnv paperBroker) ?aapl = Some paperBroker" by simp
  have p2: "placeOrder paperBroker (signalOrder ?aapl) 0 = (Inr ?r, 1)"
    by (simp add: paperBroker_def signalOrder_def mkSignal_def)
  have p2': "placeOrder paperBroker (signalOrder ?aapl) (Suc 0) = (Inr (?r\<lparr>b_timestamp := 1\<rparr>), 2)"
    by (simp add: paperBroker_def signalOrder_def mkSignal_def)
  have d: "\<forall>b \<in> snd ` set (brokers (paperEnv downBroker)). \<forall>ord w'. isl (fst (placeOrder b ord w'))"
    by (simp add: paperEnv_def downBroker_def)
  have v: "fst (validateSignal (paperEnv paperBroker) idleEngine (mkSignal ''AAPL'' ''buy'' 100)
             ''NewsBasedStrategy'' 0) = None"
    by (simp add: validateSignal_def idleEngine_def mkSignal_def paperEnv_def
        validateOrder_def resetDailyCountersIfNeeded_def newRiskManager_def limitsAB_def
        orderValue_def js_or_def Let_def)
  have s3: "selectBroker (paperEnv paperBroker\<lparr>brokers := []\<rparr>) ?aapl = None"
    by (simp add: selectBroker_def paperEnv_def mkSignal_def)
  have o: "orders idleEngine = []" by (simp add: idleEngine_def)
  note t1 = order_registry_atomicity[of "paperEnv paperBroker" ?bad paperBroker 0 ?r 1
      idleEngine "''NewsBasedStrategy''" "''Failed to place Alpaca order: rejected''" "[?aapl]" "[]"]
  note t2 = order_registry_atomicity[of "paperEnv paperBroker" ?aapl paperBroker 0 ?r 1
      idleEngine "''NewsBasedStrategy''" "''x''" "[]" "[]"]
  note t3 = order_registry_atomicity[of "paperEnv downBroker" ?aapl downBroker 0 ?r 1
      idleEngine "''NewsBasedStrategy''" "''x''" "[]" "[mkSignal ''MSFT'' ''buy'' 5, ?aapl]"]
  note t4 = order_registry_atomicity[of "paperEnv paperBroker" "mkSignal ''AAPL'' ''buy'' 100"
      paperBroker 0 ?r 1 idleEngine "''NewsBasedStrategy''" "''x''" "[]" "[]"]
  note t5 = order_registry_atomicity[of "paperEnv paperBroker\<lparr>brokers := []\<rparr>" ?aapl
      paperBroker 0 ?r 1 idleEngine "''NewsBasedStrategy''" "''x''" "[]" "[]"]
  have c1: "orders (fst (executeSignal (paperEnv paperBroker) idleEngine ?bad ''NewsBasedStrategy'' 0)) = []"
    using t1 s1 p1 o by simp
  have x1: "executeSignal (paperEnv paperBroker) idleEngine ?bad ''NewsBasedStrategy'' 0
     = (emit idleEngine (OrderFailed ?bad ''Failed to place Alpaca order: rejected'' ''NewsBasedStrategy''), 1)"
    using t1 s1 p1 by simp
  have step: "processSignals (paperEnv paperBroker) idleEngine (?bad # [?aapl]) ''NewsBasedStrategy'' 0
      = (case processSignals (paperEnv paperBroker) idleEngine [?bad] ''NewsBasedStrategy'' 0 of
           (eng1, w1) \<Rightarrow> processSignals (paperEnv paperBroker) eng1 [?aapl] ''NewsBasedStrategy'' w1)"
    by (rule conjunct1[OF conjunct2[OF conjunct2[OF conjunct2[OF conjunct2[OF t1]]]]])
  have st: "processSignals (paperEnv paperBroker) idleEngine [?bad] ''NewsBasedStrategy'' 0
     = (emit idleEngine (OrderFailed ?bad ''Failed to place Alpaca order: rejected'' ''NewsBasedStrategy''), 1)"
    by (simp add: x1)
  have c2: "map fst (orders (fst (processSignals (paperEnv paperBroker) idleEngine
         [?bad, ?aapl] ''NewsBasedStrategy'' 0))) = [''ord-AAPL'']"
    unfolding step st
    by (simp add: executeSignal_success[OF s2 p2'] o)
  have c3: "orders (fst (processSignals (paperEnv downBroker) idleEngine
         [mkSignal ''MSFT'' ''buy'' 5, ?aapl] ''NewsBasedStrategy'' 0)) = []"
    using t3 d o by simp
  have c4: "orders (fst (processSignals (paperEnv paperBroker) idleEngine
         [mkSignal ''AAPL'' ''buy'' 100] ''NewsBasedStrategy'' 0)) = []"
    using t4 v o by simp
  have c5: "map_of (orders (fst (executeSignal (paperEnv paperBroker) idleEngine
                 ?aapl ''NewsBasedStrategy'' 0))) ''ord-AAPL''
              = Some (registryEntry ?r ''NewsBasedStrategy'' ?aapl)"
    using t2 s2 p2 by (simp add: map_of_mapSet)
  have c6: "orders (fst (executeSignal (paperEnv paperBroker\<lparr>brokers := []\<rparr>) idleEngine
         ?aapl ''NewsBasedStrategy'' 0)) = []"
    using t5 s3 o by simp
  have d': "isl (fst (placeOrder downBroker (signalOrder (mkSignal ''MSFT'' ''buy'' 5)) 0))"
    by (simp add: downBroker_def)
  from s1 p1 c1 c2 d' c3 v c4 s2 p2 c5 s3 c6 show ?thesis by blast
qed

text \<open>
  C7 (a duplicate broker id fails with DuplicateOrder and keeps the entry) does not hold
  of the engine: there is no duplicate check. The registry holds an order under
  \<open>ord-AAPL\<close>; the broker answers the next submission with the same id; \<open>executeSignal\<close>
  replaces the entry and emits \<open>order_placed\<close>.
\<close>

theorem duplicate_order_id_replaces_entry:
  "map_of (orders dupEngine) ''ord-AAPL''
     = Some (registryEntry filledAapl ''EarlierStrategy'' (mkSignal ''AAPL'' ''buy'' 5))
   \<and> executeSignal (paperEnv paperBroker) dupEngine (mkSignal ''AAPL'' ''sell'' 5)
        ''NewsBasedStrategy'' 0
     = (emit (dupEngine\<lparr>orders :=
                [(''ord-AAPL'', registryEntry newAapl ''NewsBasedStrategy''
                                  (mkSignal ''AAPL'' ''sell'' 5))]\<rparr>)
          (OrderPlaced ''ord-AAPL'' newAapl ''NewsBasedStrategy'' (mkSignal ''AAPL'' ''sell'' 5)), 1)
   \<and> map_of (orders (fst (executeSignal (paperEnv paperBroker) dupEngine
          (mkSignal ''AAPL'' ''sell'' 5) ''NewsBasedStrategy'' 0))) ''ord-AAPL''
     \<noteq> map_of (orders dupEngine) ''ord-AAPL''"
proof -
  have p: "placeOrder paperBroker (signalOrder (mkSignal ''AAPL'' ''sell'' 5)) 0 = (Inr newAapl, 1)"
    by (simp add: paperBroker_def signalOrder_def mkSignal_def newAapl_def)
  have x: "executeSignal (paperEnv paperBroker) dupEngine (mkSignal ''AAPL'' ''sell'' 5)
        ''NewsBasedStrategy'' 0
     = (emit (dupEngine\<lparr>orders :=
                [(''ord-AAPL'', registryEntry newAapl ''NewsBasedStrategy''
                                  (mkSignal ''AAPL'' ''sell'' 5))]\<rparr>)
          (OrderPlaced ''ord-AAPL'' newAapl ''NewsBasedStrategy'' (mkSignal ''AAPL'' ''sell'' 5)), 1)"
    by (simp add: executeSignal_success[OF scenario_select p]) (simp add: dupEngine_def newAapl_def)
  show ?thesis
    unfolding x
    by (simp add: dupEngine_def registryEntry_def newAapl_def filledAapl_def)
qed

text \<open>
  C7, as the engine behaves: when \<open>placeOrder\<close> returns an order whose id is already in
  the registry, \<open>executeSignal\<close> does not fail. It replaces the entry of that id by the
  entry of the new order (\<open>Map.set\<close>), the ids of the registry stay as they were, and
  \<open>order_placed\<close> is emitted.
\<close>

theorem duplicate_order_id_overwrites:
  "selectBroker env sig = Some b \<Longrightarrow> placeOrder b (signalOrder sig) w = (Inr result, w') \<Longrightarrow>
   map_of (orders eng) (orderId result) = Some old \<Longrightarrow>
     executeSignal env eng sig nm w
       = (emit (eng\<lparr>orders := mapSet (orderId result) (registryEntry result nm sig) (orders eng)\<rparr>)
            (OrderPlaced (orderId result) result nm sig), w')
     \<and> map_of (orders (fst (executeSignal env eng sig nm w))) (orderId result)
         = Some (registryEntry result nm sig)
     \<and> map fst (orders (fst (executeSignal env eng sig nm w))) = map fst (orders eng)
     \<and> emitted (fst (executeSignal env eng sig nm w))
         = emitted eng @ [OrderPlaced (orderId result) result nm sig]"
proof -
  assume s: "selectBroker env sig = Some b" and p: "placeOrder b (signalOrder sig) w = (Inr result, w')"
    and m: "map_of (orders eng) (orderId result) = Some old"
  from m have "(orderId result, old) \<in> set (orders eng)" by (rule map_of_SomeD)
  then have k: "map fst (mapSet (orderId result) (registryEntry result nm sig) (orders eng))
      = map fst (orders eng)" by (rule keys_mapSet)
  show ?thesis
    by (simp add: executeSignal_success[OF s p] map_of_mapSet k)
qed

theorem duplicate_order_id_overwrites_witness:
  "selectBroker (paperEnv paperBroker) (mkSignal ''AAPL'' ''sell'' 5) = Some paperBroker
   \<and> placeOrder paperBroker (signalOrder (mkSignal ''AAPL'' ''sell'' 5)) 0 = (Inr newAapl, 1)
   \<and> map_of (orders dupEngine) (orderId newAapl)
       = Some (registryEntry filledAapl ''EarlierStrategy'' (mkSignal ''AAPL'' ''buy'' 5))
   \<and> map_of (orders (fst (executeSignal (paperEnv paperBroker) dupEngine
          (mkSignal ''AAPL'' ''sell'' 5) ''NewsBasedStrategy'' 0))) (orderId newAapl)
       = Some (registryEntry newAapl ''NewsBasedStrategy'' (mkSignal ''AAPL'' ''sell'' 5))
   \<and> map fst (orders (fst (executeSignal (paperEnv paperBroker) dupEngine
          (mkSignal ''AAPL'' ''sell'' 5) ''NewsBasedStrategy'' 0))) = [''ord-AAPL'']
   \<and> emitted (fst (executeSignal (paperEnv paperBroker) dupEngine
          (mkSignal ''AAPL'' ''sell'' 5) ''NewsBasedStrategy'' 0))
       = [OrderPlaced ''ord-AAPL'' newAapl ''NewsBasedStrategy'' (mkSignal ''AAPL'' ''sell'' 5)]"
proof -
  have s: "selectBroker (paperEnv paperBroker) (mkSignal ''AAPL'' ''sell'' 5) = Some paperBroker"
    by simp
  have p: "placeOrder paperBroker (signalOrder (mkSignal ''AAPL'' ''sell'' 5)) 0 = (Inr newAapl, 1)"
    by (simp add: paperBroker_def signalOrder_def mkSignal_def newAapl_def)
  have m: "map_of (orders dupEngine) (orderId newAapl)
       = Some (registryEntry filledAapl ''EarlierStrategy'' (mkSignal ''AAPL'' ''buy'' 5))"
    by (simp add: dupEngine_def newAapl_def)
  have i: "orderId newAapl = ''ord-AAPL''" "map fst (orders dupEngine) = [''ord-AAPL'']"
    "emitted dupEngine = []"
    by (simp_all add: newAapl_def dupEngine_def idleEngine_def)
  from duplicate_order_id_overwrites[OF s p m, of "''NewsBasedStrategy''"] s p m
  show ?thesis by (simp add: i map_of_mapSet) (simp add: dupEngine_def)
qed

text \<open>
  C8 (\<open>start()\<close> on a running engine is a no-op) does not hold of the engine: the call
  throws.
\<close>

theorem start_while_running_throws:
  "running (idleEngine\<lparr>running := True\<rparr>)
   \<and> fst (start (paperEnv paperBroker) (idleEngine\<lparr>running := True\<rparr>) 0)
       = Inl ''Trading engine is already running''"
  by (simp add: start_def)

text \<open>
  C8, as the engine behaves: \<open>start()\<close> on a running engine throws the error
  "Trading engine is already running" before it does anything else, and the state of the
  engine (running flag, strategies, orders, positions) and the world are unchanged.
\<close>

theorem start_already_running:
  "running eng \<Longrightarrow> start env eng w = (Inl ''Trading engine is already running'', eng, w)"
  by (simp add: start_def)

theorem start_already_running_witness:
  "running (tradingEngine heldAt150 None)
   \<and> start (paperEnv paperBroker) (tradingEngine heldAt150 None) 7
       = (Inl ''Trading engine is already running'', tradingEngine heldAt150 None, 7)"
proof -
  have r: "running (tradingEngine heldAt150 None)" by (simp add: tradingEngine_def)
  from start_already_running[OF r, of "paperEnv paperBroker" 7] r show ?thesis by simp
qed

lemma mergeOrder_fields [simp]:
  "signal (mergeOrder info cur) = signal info" "status (mergeOrder info cur) = status cur"
  "strategyName (mergeOrder info cur) = strategyName info"
  by (simp_all add: mergeOrder_def)

lemma reconcileEntry_key [simp]: "fst (reconcileEntry env w e) = fst e"
  by (simp add: reconcileEntry_def split: option.splits sum.splits)

lemma reconcileEntry_idem: "reconcileEntry env w (reconcileEntry env w e) = reconcileEntry env w e"
  by (cases e) (simp add: reconcileEntry_def split: option.splits sum.splits)

lemma processOrdersFrom_step:
  assumes stable: "\<forall>b \<in> snd ` set (brokers env). \<forall>w w'.
      fst (getOrderHistory b w) = fst (getOrderHistory b w')"
  shows "\<exists>eng' w''. processOrdersFrom env ((oid, info) # es) eng w = processOrdersFrom env es eng' w''
      \<and> (if reconcileEntry env w0 (oid, info) = (oid, info) then eng' = eng
          else orders eng' = mapSet oid (snd (reconcileEntry env w0 (oid, info))) (orders eng))"
proof (cases "selectBroker env (signal info)")
  case None
  then show ?thesis by (auto simp add: reconcileEntry_def)
next
  case (Some b)
  then have "b \<in> snd ` set (brokers env)" by (rule selectBroker_in)
  with stable have h: "fst (getOrderHistory b w0) = fst (getOrderHistory b w)" by blast
  obtain r w1 where g: "getOrderHistory b w = (r, w1)" by (cases "getOrderHistory b w")
  show ?thesis
  proof (cases r)
    case (Inl err)
    with Some g h show ?thesis by (auto simp add: reconcileEntry_def)
  next
    case (Inr hist)
    show ?thesis
    proof (cases "find (\<lambda>h. orderId h = oid) hist")
      case None
      with Some g h Inr show ?thesis by (auto simp add: reconcileEntry_def)
    next
      case (Some cur) note c = this
      show ?thesis
      proof (cases "status cur = status info")
        case True
        with \<open>selectBroker env (signal info) = Some b\<close> g h Inr c show ?thesis
          by (auto simp add: reconcileEntry_def)
      next
        case False
        then have "mergeOrder info cur \<noteq> info"
          by (metis mergeOrder_fields(2))
        with False \<open>selectBroker env (signal info) = Some b\<close> g h Inr c show ?thesis
          by (auto simp add: reconcileEntry_def)
      qed
    qed
  qed
qed

lemma processOrdersFrom_orders:
  assumes stable: "\<forall>b \<in> snd ` set (brokers env). \<forall>w w'.
      fst (getOrderHistory b w) = fst (getOrderHistory b w')"
  shows "distinct (map fst (pre @ es)) \<Longrightarrow> orders eng = map (reconcileEntry env w0) pre @ es \<Longrightarrow>
     orders (fst (processOrdersFrom env es eng w)) = map (reconcileEntry env w0) (pre @ es)"
proof (induction es arbitrary: pre eng w)
  case Nil
  then show ?case by simp
next
  case (Cons e es)
  obtain oid info where e: "e = (oid, info)" by (cases e)
  from processOrdersFrom_step[OF stable, of oid info es eng w w0]
  obtain eng' w'' where
    s: "processOrdersFrom env ((oid, info) # es) eng w = processOrdersFrom env es eng' w''"
    and o: "if reconcileEntry env w0 (oid, info) = (oid, info) then eng' = eng
          else orders eng' = mapSet oid (snd (reconcileEntry env w0 (oid, info))) (orders eng)"
    by blast
  from Cons.prems(1) e have nin: "oid \<notin> fst ` set (map (reconcileEntry env w0) pre)"
    by (auto simp add: image_iff)
  have r: "reconcileEntry env w0 (oid, info) = (oid, snd (reconcileEntry env w0 (oid, info)))"
    by (metis reconcileEntry_key fst_conv prod.collapse)
  have "orders eng' = map (reconcileEntry env w0) (pre @ [e]) @ es"
  proof (cases "reconcileEntry env w0 (oid, info) = (oid, info)")
    case True
    with o Cons.prems(2) e show ?thesis by simp
  next
    case False
    with o have "orders eng' = mapSet oid (snd (reconcileEntry env w0 (oid, info)))
        (map (reconcileEntry env w0) pre @ (oid, info) # es)"
      using Cons.prems(2) e by simp
    also have "\<dots> = map (reconcileEntry env w0) pre
        @ (oid, snd (reconcileEntry env w0 (oid, info))) # es"
      using nin by (rule mapSet_middle)
    finally show ?thesis using r e by simp
  qed
  moreover from Cons.prems(1) have "distinct (map fst ((pre @ [e]) @ es))" by simp
  ultimately have "orders (fst (processOrdersFrom env es eng' w''))
      = map (reconcileEntry env w0) ((pre @ [e]) @ es)"
    by (rule Cons.IH[rotated])
  with s e show ?case by simp
qed

lemma processOrdersFrom_settled:
  assumes stable: "\<forall>b \<in> snd ` set (brokers env). \<forall>w w'.
      fst (getOrderHistory b w) = fst (getOrderHistory b w')"
  shows "\<forall>e \<in> set es. reconcileEntry env w0 e = e \<Longrightarrow> fst (processOrdersFrom env es eng w) = eng"
proof (induction es arbitrary: eng w)
  case Nil
  then show ?case by simp
next
  case (Cons e es)
  obtain oid info where e: "e = (oid, info)" by (cases e)
  from processOrdersFrom_step[OF stable, of oid info es eng w w0]
  obtain eng' w'' where
    s: "processOrdersFrom env ((oid, info) # es) eng w = processOrdersFrom env es eng' w''"
    and o: "if reconcileEntry env w0 (oid, info) = (oid, info) then eng' = eng
          else orders eng' = mapSet oid (snd (reconcileEntry env w0 (oid, info))) (orders eng)"
    by blast
  from Cons.prems e o have "eng' = eng" by simp
  with s e Cons.IH[of eng w''] Cons.prems show ?case by simp
qed

text \<open>
  C6 (reconciliation is idempotent and tolerates omissions). Let every broker answer
  \<open>getOrderHistory\<close> with the same snapshot whenever it is asked, and let the registry be
  a \<open>Map\<close> (its keys are distinct). Then a second run of \<open>processOrders\<close> right after the
  first leaves the engine exactly as the first run left it: no entry changes and no
  further \<open>order_updated\<close> event is emitted. And an order that its broker's snapshot
  does not list keeps its entry unchanged through \<open>processOrders\<close>.
\<close>

theorem reconciliation_idempotent:
  assumes stable: "\<forall>b \<in> snd ` set (brokers env). \<forall>w w'.
      fst (getOrderHistory b w) = fst (getOrderHistory b w')"
    and dist: "distinct (map fst (orders eng))"
  shows "fst (processOrders env (fst (processOrders env eng w)) (snd (processOrders env eng w)))
           = fst (processOrders env eng w)
    \<and> emitted (fst (processOrders env (fst (processOrders env eng w))
                      (snd (processOrders env eng w))))
           = emitted (fst (processOrders env eng w))
    \<and> (\<forall>(oid, info) \<in> set (orders eng). \<forall>b hist.
          selectBroker env (signal info) = Some b
          \<and> fst (getOrderHistory b w) = Inr hist
          \<and> find (\<lambda>h. orderId h = oid) hist = None
          \<longrightarrow> map_of (orders (fst (processOrders env eng w))) oid = Some info)"
proof -
  let ?R = "reconcileEntry env w"
  let ?eng1 = "fst (processOrders env eng w)"
  have o1: "orders ?eng1 = map ?R (orders eng)"
    using processOrdersFrom_orders[OF stable, of "[]" "orders eng" eng w w] dist
    by (simp add: processOrders_def)
  have "\<forall>e \<in> set (orders ?eng1). ?R e = e"
    by (simp add: o1 reconcileEntry_idem)
  then have idem: "fst (processOrders env ?eng1 (snd (processOrders env eng w))) = ?eng1"
    unfolding processOrders_def[of env ?eng1]
    by (rule processOrdersFrom_settled[OF stable])
  have gap: "map_of (orders ?eng1) oid = Some info"
    if m: "(oid, info) \<in> set (orders eng)" and s: "selectBroker env (signal info) = Some b"
      and g: "fst (getOrderHistory b w) = Inr hist" and f: "find (\<lambda>h. orderId h = oid) hist = None"
    for oid info b hist
  proof -
    from s g f have "?R (oid, info) = (oid, info)" by (simp add: reconcileEntry_def)
    with m have "(oid, info) \<in> set (map ?R (orders eng))" by (metis image_eqI set_map)
    moreover have "distinct (map fst (map ?R (orders eng)))" using dist by (simp add: comp_def)
    ultimately show ?thesis unfolding o1 by (rule map_of_is_SomeI[rotated])
  qed
  from idem gap show ?thesis by auto
qed

text \<open>
  The snapshot lists \<open>ord-AAPL\<close> as filled and does not list \<open>ord-MSFT\<close>: the first run
  emits one \<open>order_updated\<close>, the second none, and \<open>ord-MSFT\<close> stays as it was.
\<close>

theorem reconciliation_idempotent_witness:
  "brokers (paperEnv paperBroker) = [(''alpaca'', paperBroker)]
   \<and> fst (getOrderHistory paperBroker 0) = fst (getOrderHistory paperBroker 1)
   \<and> distinct (map fst (orders reconEngine))
   \<and> emitted (fst (processOrders (paperEnv paperBroker) reconEngine 0))
       = [OrderUpdated ''ord-AAPL'' filledAapl]
   \<and> map (\<lambda>(k, v). (k, status v)) (orders (fst (processOrders (paperEnv paperBroker) reconEngine 0)))
       = [(''ord-AAPL'', ''filled''), (''ord-MSFT'', ''new'')]
   \<and> emitted (fst (processOrders (paperEnv paperBroker)
                     (fst (processOrders (paperEnv paperBroker) reconEngine 0))
                     (snd (processOrders (paperEnv paperBroker) reconEngine 0))))
       = [OrderUpdated ''ord-AAPL'' filledAapl]
   \<and> map_of (orders (fst (processOrders (paperEnv paperBroker) reconEngine 0))) ''ord-MSFT''
       = Some (pendingOrder ''MSFT'')"
proof -
  have stable: "\<forall>b \<in> snd ` set (brokers (paperEnv paperBroker)). \<forall>w w'.
      fst (getOrderHistory b w) = fst (getOrderHistory b w')"
    by (simp add: paperEnv_def paperBroker_def)
  have dist: "distinct (map fst (orders reconEngine))"
    by (simp add: reconEngine_def)
  have sel: "selectBroker (paperEnv paperBroker) (signal (pendingOrder symb)) = Some paperBroker"
    for symb by (simp add: pendingOrder_def registryEntry_def)
  have hist: "getOrderHistory paperBroker w = (Inr [filledAapl], Suc w)" for w
    by (simp add: paperBroker_def)
  have st: "status (pendingOrder symb) = ''new''" "status filledAapl = ''filled''"
    "orderId filledAapl = ''ord-AAPL''" for symb
    by (simp_all add: pendingOrder_def registryEntry_def filledAapl_def)
  have run: "fst (processOrders (paperEnv paperBroker) reconEngine 0)
      = emit (reconEngine\<lparr>orders := [(''ord-AAPL'', mergeOrder (pendingOrder ''AAPL'') filledAapl),
                                      (''ord-MSFT'', pendingOrder ''MSFT'')]\<rparr>)
          (OrderUpdated ''ord-AAPL'' filledAapl)"
    by (simp add: processOrders_def reconEngine_def sel hist st)
  have m: "(''ord-MSFT'', pendingOrder ''MSFT'') \<in> set (orders reconEngine)"
    by (simp add: reconEngine_def)
  have f: "find (\<lambda>h. orderId h = ''ord-MSFT'') [filledAapl] = None"
    by (simp add: st)
  note t = reconciliation_idempotent[OF stable dist, of 0]
  from t have a: "emitted (fst (processOrders (paperEnv paperBroker)
                     (fst (processOrders (paperEnv paperBroker) reconEngine 0))
                     (snd (processOrders (paperEnv paperBroker) reconEngine 0))))
       = emitted (fst (processOrders (paperEnv paperBroker) reconEngine 0))"
    by blast
  from t m sel[of "''MSFT''"] hist[of 0] f
  have b: "map_of (orders (fst (processOrders (paperEnv paperBroker) reconEngine 0))) ''ord-MSFT''
       = Some (pendingOrder ''MSFT'')"
    by fastforce
  have e: "emitted reconEngine = []" by (simp add: reconEngine_def idleEngine_def)
  have br: "brokers (paperEnv paperBroker) = [(''alpaca'', paperBroker)]"
    by (simp add: paperEnv_def)
  from br dist a b show ?thesis
    by (simp add: run e st hist)
qed

lemma evaluateBuySignal_Some:
  "fst (evaluateBuySignal st symb an p now) = Some sig \<Longrightarrow>
     action sig = ''buy'' \<and> sg_symbol sig = symb
     \<and> activePositions (snd (evaluateBuySignal st symb an p now)) symb
         = Some \<lparr> entryTime = now, entryPrice = p, sp_reason = ''positive_sentiment_buzz'' \<rparr>"
  by (auto simp add: evaluateBuySignal_def Let_def case_prod_beta createSignal_fst
      split: if_splits)

lemma evaluateSellSignal_Some:
  "fst (evaluateSellSignal st symb an p now) = Some sig \<Longrightarrow>
     action sig = ''sell'' \<and> sg_symbol sig = symb
     \<and> activePositions (snd (evaluateSellSignal st symb an p now)) symb = None"
  by (auto simp add: evaluateSellSignal_def Let_def case_prod_beta createSignal_fst
      split: if_splits option.splits)

lemma executeStrategies_single:
  "enabled st \<Longrightarrow> strategies eng = [(nm, st)] \<Longrightarrow>
     strategies (fst (executeStrategies env md eng w)) = [(nm, snd (evaluate st md (nowMs env w)))]"
  by (simp add: executeStrategies_def case_prod_beta processSignals_strategies)

text \<open>
  C10 (the strategy commits its transition when it creates the signal). A buy signal
  from \<open>evaluateBuySignal\<close> comes with the symbol marked active (entry time and entry
  price recorded); a sell signal from \<open>evaluateSellSignal\<close> comes with the entry of the
  symbol deleted. The engine's handling of the signals (risk gate and submission, in
  \<open>processSignals\<close>) never touches a strategy: after the engine has run a strategy, the
  state of the strategy is the state in which \<open>evaluate\<close> left it, whether its orders
  were accepted, rejected or failed.
\<close>

theorem strategy_state_committed_before_execution:
  "(fst (evaluateBuySignal st symb an p now) = Some sig
      \<longrightarrow> action sig = ''buy'' \<and> sg_symbol sig = symb
        \<and> activePositions (snd (evaluateBuySignal st symb an p now)) symb
            = Some \<lparr> entryTime = now, entryPrice = p, sp_reason = ''positive_sentiment_buzz'' \<rparr>)
   \<and> (fst (evaluateSellSignal st symb an p now) = Some sig'
      \<longrightarrow> action sig' = ''sell'' \<and> sg_symbol sig' = symb
        \<and> activePositions (snd (evaluateSellSignal st symb an p now)) symb = None)
   \<and> strategies (fst (processSignals env eng sigs nm w)) = strategies eng
   \<and> (enabled st \<and> strategies eng = [(nm, st)]
      \<longrightarrow> strategies (fst (executeStrategies env md eng w))
            = [(nm, snd (evaluate st md (nowMs env w)))])"
  using evaluateBuySignal_Some[of st symb an p now sig]
    evaluateSellSignal_Some[of st symb an p now sig']
    processSignals_strategies[of env eng sigs nm w]
    executeStrategies_single[of st eng nm env md w]
  by blast

text \<open>
  A buy whose submission fails (broker down) leaves the symbol active and no order; a
  sell that the risk gate rejects (notional 100 x 100 over the limit of 1000) leaves the
  symbol flat and no order.
\<close>

theorem strategy_state_committed_before_execution_witness:
  "fst (evaluateBuySignal flatStrategy ''AAPL'' aaplAnalysis 150 2000) \<noteq> None
   \<and> fst (evaluateSellSignal heldAt150 ''AAPL'' aaplAnalysis (285 / 2) 2000) \<noteq> None
   \<and> enabled flatStrategy
   \<and> strategies (tradingEngine flatStrategy None) = [(''news'', flatStrategy)]
   \<and> orders (fst (executeStrategies (paperEnv downBroker) (aaplMarket 150)
                    (tradingEngine flatStrategy None) 2)) = []
   \<and> map (\<lambda>(n, s). (n, activePositions s ''AAPL''))
        (strategies (fst (executeStrategies (paperEnv downBroker) (aaplMarket 150)
                            (tradingEngine flatStrategy None) 2)))
       = [(''news'', Some \<lparr> entryTime = 2000, entryPrice = 150,
                             sp_reason = ''positive_sentiment_buzz'' \<rparr>)]
   \<and> enabled heldAt150
   \<and> strategies (tradingEngine heldAt150 (Some (newRiskManager limitsAB jan1)))
       = [(''news'', heldAt150)]
   \<and> orders (fst (executeStrategies (paperEnv paperBroker) (aaplMarket (285 / 2))
                    (tradingEngine heldAt150 (Some (newRiskManager limitsAB jan1))) 2)) = []
   \<and> map (\<lambda>(n, s). (n, activePositions s ''AAPL''))
        (strategies (fst (executeStrategies (paperEnv paperBroker) (aaplMarket (285 / 2))
                            (tradingEngine heldAt150 (Some (newRiskManager limitsAB jan1))) 2)))
       = [(''news'', None)]"
proof -
  let ?buy = "the (fst (evaluateBuySignal flatStrategy ''AAPL'' aaplAnalysis 150 2000))"
  let ?sell = "the (fst (evaluateSellSignal heldAt150 ''AAPL'' aaplAnalysis (285 / 2) 2000))"
  let ?e1 = "tradingEngine flatStrategy None"
  let ?e2 = "tradingEngine heldAt150 (Some (newRiskManager limitsAB jan1))"
  have b: "fst (evaluateBuySignal flatStrategy ''AAPL'' aaplAnalysis 150 2000) \<noteq> None"
    by (simp add: evaluateBuySignal_def flatStrategy_def scenario_defs aaplAnalysis_def
        case_prod_beta Let_def)
  have s: "fst (evaluateSellSignal heldAt150 ''AAPL'' aaplAnalysis (285 / 2) 2000) \<noteq> None"
    by (simp add: evaluateSellSignal_def scenario_defs aaplAnalysis_def js_div_def
        case_prod_beta Let_def)
  have en: "enabled flatStrategy" "enabled heldAt150"
    by (simp_all add: flatStrategy_def scenario_defs)
  have st: "strategies ?e1 = [(''news'', flatStrategy)]" "strategies ?e2 = [(''news'', heldAt150)]"
    by (simp_all add: tradingEngine_def)
  have nw: "nowMs (paperEnv br) 2 = 2000" for br :: "nat broker"
    by (simp add: paperEnv_def)
  have ev1: "evaluate flatStrategy (aaplMarket 150) 2000
      = (case evaluateBuySignal flatStrategy ''AAPL'' aaplAnalysis 150 2000 of
           (sg, st') \<Rightarrow> ([the sg], st'))"
    by (simp add: evaluate_def flatStrategy_def scenario_defs aaplAnalysis_def js_div_def
        evaluateBuySignal_def evaluateSellSignal_def createSignal_def slog_def Let_def)
  have ev2: "evaluate heldAt150 (aaplMarket (285 / 2)) 2000
      = (case evaluateSellSignal heldAt150 ''AAPL'' aaplAnalysis (285 / 2) 2000 of
           (sg, st') \<Rightarrow> ([the sg], st'))"
    by (simp add: evaluate_def scenario_defs aaplAnalysis_def js_div_def
        evaluateBuySignal_def evaluateSellSignal_def createSignal_def slog_def Let_def)
  note t1 = strategy_state_committed_before_execution[of flatStrategy "''AAPL''" aaplAnalysis 150
      2000 ?buy ?sell "paperEnv downBroker" ?e1 "[]" "''news''" 2 "aaplMarket 150"]
  note t2 = strategy_state_committed_before_execution[of heldAt150 "''AAPL''" aaplAnalysis "285 / 2"
      2000 ?buy ?sell "paperEnv paperBroker" ?e2 "[]" "''news''" 2 "aaplMarket (285 / 2)"]
  from t1 b have a1: "activePositions (snd (evaluateBuySignal flatStrategy ''AAPL'' aaplAnalysis 150 2000))
       ''AAPL'' = Some \<lparr> entryTime = 2000, entryPrice = 150, sp_reason = ''positive_sentiment_buzz'' \<rparr>"
    by simp
  from t2 s have a2: "activePositions (snd (evaluateSellSignal heldAt150 ''AAPL'' aaplAnalysis
       (285 / 2) 2000)) ''AAPL'' = None"
    by simp
  from t1 en st have s1: "strategies (fst (executeStrategies (paperEnv downBroker) (aaplMarket 150) ?e1 2))
      = [(''news'', snd (evaluate flatStrategy (aaplMarket 150) 2000))]"
    by (simp add: nw)
  from t2 en st have s2: "strategies (fst (executeStrategies (paperEnv paperBroker)
        (aaplMarket (285 / 2)) ?e2 2))
      = [(''news'', snd (evaluate heldAt150 (aaplMarket (285 / 2)) 2000))]"
    by (simp add: nw)
  have d: "\<forall>b \<in> snd ` set (brokers (paperEnv downBroker)). \<forall>ord w'. isl (fst (placeOrder b ord w'))"
    by (simp add: paperEnv_def downBroker_def)
  have o1: "orders (fst (executeStrategies (paperEnv downBroker) (aaplMarket 150) ?e1 2)) = []"
    by (simp add: executeStrategies_def st en case_prod_beta processSignals_all_fail[OF d])
       (simp add: tradingEngine_def)
  have sellsig: "the (fst (evaluateSellSignal heldAt150 ''AAPL'' aaplAnalysis (285 / 2) 2000))
      = \<lparr> sg_symbol = ''AAPL'', action = ''sell'', quantity = 100, orderType = ''market'',
       sg_limitPrice = None, sg_stopPrice = None, sg_timeInForce = ''gtc'',
       sg_strategyName = ''NewsBasedStrategy'', timestamp = 2000,
       reason = SellReason ''stop_loss'' (Fin (- 5)), preferredBroker = None \<rparr>"
    by (simp add: evaluateSellSignal_def scenario_defs aaplAnalysis_def js_div_def
        case_prod_beta Let_def createSignal_fst)
  have rej: "fst (validateSignal (paperEnv paperBroker) eng
        (the (fst (evaluateSellSignal heldAt150 ''AAPL'' aaplAnalysis (285 / 2) 2000))) ''news'' 2) = None"
    if "riskManager eng = Some (newRiskManager limitsAB jan1)" for eng
    unfolding sellsig using that
    by (simp add: validateSignal_def paperEnv_def validateOrder_def resetDailyCountersIfNeeded_def
        newRiskManager_def limitsAB_def orderValue_def js_or_def Let_def)
  have o2: "orders (fst (executeStrategies (paperEnv paperBroker) (aaplMarket (285 / 2)) ?e2 2)) = []"
  proof -
    let ?eng = "?e2\<lparr>strategies := mapSet ''news'' (snd (evaluate heldAt150 (aaplMarket (285 / 2)) 2000))
        (strategies ?e2)\<rparr>"
    have r: "riskManager ?eng = Some (newRiskManager limitsAB jan1)" by (simp add: tradingEngine_def)
    obtain v eng1 where v: "validateSignal (paperEnv paperBroker) ?eng ?sell ''news'' 2 = (v, eng1)"
      by (cases "validateSignal (paperEnv paperBroker) ?eng ?sell ''news'' 2")
    with rej[OF r] have vn: "v = None" by simp
    from validateSignal_fields(1)[of "paperEnv paperBroker" ?eng ?sell "''news''" 2] v
    have "orders eng1 = []" by (simp add: tradingEngine_def)
    with v vn show ?thesis
      by (simp add: executeStrategies_def st en nw ev2 case_prod_beta)
  qed
  from b s en st o1 o2 show ?thesis
    by (simp add: s1 s2 ev1 ev2 a1 a2 case_prod_beta)
qed

end
